theory Spec2Isabelle
  imports Complex_Main
begin

section \<open>Data model of the dungeon scene\<close>

text \<open>
  The simulation core is the React component \<^verbatim>\<open>DungeonScene\<close>. Its mutable
  references (\<^verbatim>\<open>playerRef\<close>, \<^verbatim>\<open>wallsRef\<close>, \<^verbatim>\<open>creaturesRef\<close>, ...) are the fields
  of one state record that every function takes and returns. JavaScript numbers are
  modelled as mathematical reals (frame counters as integers): rounding of IEEE doubles is
  outside the model. Objects of the rendering library that own GPU memory are
  represented by resource handles, and every call of \<^verbatim>\<open>dispose()\<close> is appended to
  a log, so that what has been released, and when, is part of the state. Membership of
  objects in the drawn scene graph (\<^verbatim>\<open>scene.add\<close>, \<^verbatim>\<open>scene.remove\<close>), console
  output and the eye-glow opacity are rendering effects and are not part of the state.
\<close>

record vector3 =
  vx :: real
  vy :: real
  vz :: real

record box3 =
  bmin :: vector3
  bmax :: vector3

text \<open>
  \<^verbatim>\<open>Box3.intersectsBox\<close> of the rendering library: two boxes intersect when their
  extents overlap on all three axes, touching included.
\<close>

definition intersectsBox :: "box3 \<Rightarrow> box3 \<Rightarrow> bool" where
  "intersectsBox this box \<longleftrightarrow>
     vx (bmax box) \<ge> vx (bmin this) \<and> vx (bmin box) \<le> vx (bmax this) \<and>
     vy (bmax box) \<ge> vy (bmin this) \<and> vy (bmin box) \<le> vy (bmax this) \<and>
     vz (bmax box) \<ge> vz (bmin this) \<and> vz (bmin box) \<le> vz (bmax this)"

text \<open>
  Geometries, materials and point lights are objects with a \<^verbatim>\<open>dispose()\<close> method.
  Each is identified by a number; a \<open>resource\<close> names the object a call of
  \<^verbatim>\<open>dispose()\<close> was made on.
\<close>

datatype resource = Geometry nat | Material nat | PointLight nat

text \<open>A mesh's \<^verbatim>\<open>material\<close> is one material or an array of materials.\<close>

datatype materials = Single nat | Multi "nat list"

text \<open>
  A mesh can carry child meshes (\<^verbatim>\<open>mesh.add(child)\<close>), each with a geometry and a
  material of its own.
\<close>

record childMesh =
  child_geometry :: nat
  child_material :: materials

record mesh =
  position :: vector3
  geometry :: nat
  material :: materials
  children :: "childMesh list"

record pointLight =
  light_position :: vector3
  light_id :: nat

text \<open>
  An entry of the cleanup queue holds the four visual objects of a creature; a creature
  holds the same four objects and its AI and collision data.
\<close>

record cleanupItem =
  body :: mesh
  leftEye :: mesh
  rightEye :: mesh
  light :: pointLight

record creature = cleanupItem +
  targetX :: real
  targetZ :: real
  collisionBox :: box3

record projectile =
  mesh :: mesh
  velocity :: vector3
  life :: int

record player =
  player_x :: real
  player_y :: real
  player_angle :: real

record camera =
  camera_position :: vector3
  rotation_y :: real

record bob =
  time :: real
  isMoving :: bool
  baseY :: real

record scene_state =
  sceneRef :: bool
  cameraRef :: "camera option"
  playerRef :: player
  keysRef :: "string set"
  isLocked :: bool
  wallsRef :: "box3 list"
  projectilesRef :: "projectile list"
  creaturesRef :: "creature list"
  mapDataRef :: "int list list option"
  bobRef :: bob
  cleanupQueueRef :: "cleanupItem list"
  disposed :: "resource list"
  nextId :: nat

section \<open>Deferred cleanup queue\<close>

text \<open>
  The calls of \<^verbatim>\<open>dispose()\<close> made for one mesh, in the order of the source: on the
  mesh's own geometry and on its own material or materials. No call is made on anything
  that belongs to a child of the mesh.
\<close>

definition disposeMesh :: "mesh \<Rightarrow> resource list" where
  "disposeMesh m =
     Geometry (geometry m) #
     (case material m of Single mat \<Rightarrow> [Material mat] | Multi mats \<Rightarrow> map Material mats)"

definition disposeItem :: "cleanupItem \<Rightarrow> resource list" where
  "disposeItem item =
     disposeMesh (body item) @ disposeMesh (leftEye item) @ disposeMesh (rightEye item)"

text \<open>\<^verbatim>\<open>splice(0, 2)\<close> removes and returns the first two entries (fewer if there are fewer).\<close>

definition processCleanupQueue :: "scene_state \<Rightarrow> scene_state" where
  "processCleanupQueue st =
     (if cleanupQueueRef st = [] then st
      else
        let itemsToClean = take 2 (cleanupQueueRef st) in
        st\<lparr>cleanupQueueRef := drop 2 (cleanupQueueRef st),
           disposed := disposed st @ concat (map disposeItem itemsToClean)\<rparr>)"

section \<open>Projectile system\<close>

text \<open>
  \<^verbatim>\<open>shoot\<close>. The bolt and its glow get fresh geometry and material objects, and the
  glow is added to the bolt as a child. The shooting direction is the unit vector \<open>(0, 0, -1)\<close> turned by the camera's
  quaternion; the rendering library computes it, so it is a parameter here.
\<close>

definition multiplyScalar :: "vector3 \<Rightarrow> real \<Rightarrow> vector3" where
  "multiplyScalar v s = \<lparr>vx = vx v * s, vy = vy v * s, vz = vz v * s\<rparr>"

definition add :: "vector3 \<Rightarrow> vector3 \<Rightarrow> vector3" where
  "add u v = \<lparr>vx = vx u + vx v, vy = vy u + vy v, vz = vz u + vz v\<rparr>"

definition shoot :: "vector3 \<Rightarrow> scene_state \<Rightarrow> scene_state" where
  "shoot direction st =
     (if \<not> sceneRef st then st
      else case cameraRef st of
        None \<Rightarrow> st
      | Some cam \<Rightarrow>
          let boltGeometry = nextId st;
              boltMaterial = nextId st + 1;
              glowGeometry = nextId st + 2;
              glowMaterial = nextId st + 3;
              glow = \<lparr>child_geometry = glowGeometry, child_material = Single glowMaterial\<rparr>;
              bolt = \<lparr>position = (camera_position cam)\<lparr>vy := vy (camera_position cam) - 0.2\<rparr>,
                      geometry = boltGeometry,
                      material = Single boltMaterial,
                      children = [glow]\<rparr>
          in st\<lparr>projectilesRef := projectilesRef st @
                    [\<lparr>mesh = bolt, velocity = multiplyScalar direction 0.8, life = 100\<rparr>],
                 nextId := nextId st + 4\<rparr>)"

text \<open>
  The loop \<^verbatim>\<open>for (const wallBox of ...) if (box.intersectsBox(wallBox)) { ...; break }\<close>,
  used for walls by the projectile, the creature and the player checks.
\<close>

fun anyIntersects :: "box3 \<Rightarrow> box3 list \<Rightarrow> bool" where
  "anyIntersects b [] = False"
| "anyIntersects b (wallBox # rest) =
     (if intersectsBox b wallBox then True else anyIntersects b rest)"

text \<open>
  The loop \<^verbatim>\<open>for (let i = creatures.length - 1; i >= 0; i--)\<close> of the projectile
  update: \<open>scanCreatures b cs n\<close> looks at the indices \<open>n - 1\<close> down to \<open>0\<close> and returns
  the index at which the loop breaks, if it does.
\<close>

fun scanCreatures :: "box3 \<Rightarrow> creature list \<Rightarrow> nat \<Rightarrow> nat option" where
  "scanCreatures b cs 0 = None"
| "scanCreatures b cs (Suc i) =
     (if intersectsBox b (collisionBox (cs ! i)) then Some i else scanCreatures b cs i)"

text \<open>The object pushed onto the cleanup queue for a creature.\<close>

definition cleanupBundle :: "creature \<Rightarrow> cleanupItem" where
  "cleanupBundle c = \<lparr>body = body c, leftEye = leftEye c, rightEye = rightEye c, light = light c\<rparr>"

text \<open>\<^verbatim>\<open>creatures.splice(i, 1)\<close>\<close>

definition splice1 :: "nat \<Rightarrow> 'a list \<Rightarrow> 'a list" where
  "splice1 i xs = take i xs @ drop (Suc i) xs"

definition advance :: "projectile \<Rightarrow> projectile" where
  "advance p =
     p\<lparr>mesh := (mesh p)\<lparr>position := add (position (mesh p)) (velocity p)\<rparr>,
       life := life p - 1\<rparr>"

text \<open>
  The callback of \<^verbatim>\<open>projectiles.filter\<close> for one projectile. The world box of the
  bolt, \<^verbatim>\<open>new Box3().setFromObject(mesh)\<close>, is computed by the rendering library from
  the mesh and is a parameter. The result is the callback's return value (keep the
  projectile or not), the two local flags \<open>hitWall\<close> and \<open>hitCreature\<close>, the updated
  projectile and the updated state.
\<close>

definition projectileStep ::
  "(mesh \<Rightarrow> box3) \<Rightarrow> projectile \<Rightarrow> scene_state \<Rightarrow> bool \<times> (bool \<times> bool) \<times> projectile \<times> scene_state" where
  "projectileStep setFromObject projectile st =
     (let p = advance projectile;
          projectileBox = setFromObject (mesh p);
          hitWall = anyIntersects projectileBox (wallsRef st);
          found = scanCreatures projectileBox (creaturesRef st) (length (creaturesRef st));
          hitCreature = (found \<noteq> None);
          st1 = (case found of
                   None \<Rightarrow> st
                 | Some i \<Rightarrow>
                     st\<lparr>cleanupQueueRef := cleanupQueueRef st @ [cleanupBundle (creaturesRef st ! i)],
                        creaturesRef := splice1 i (creaturesRef st)\<rparr>)
      in if hitWall \<or> hitCreature \<or> life p \<le> 0
         then (False, (hitWall, hitCreature), p,
               st1\<lparr>disposed := disposed st1 @ disposeMesh (mesh p)\<rparr>)
         else (True, (hitWall, hitCreature), p, st1))"

fun filterProjectiles ::
  "(mesh \<Rightarrow> box3) \<Rightarrow> projectile list \<Rightarrow> scene_state \<Rightarrow> projectile list \<times> scene_state" where
  "filterProjectiles setFromObject [] st = ([], st)"
| "filterProjectiles setFromObject (projectile # rest) st =
     (case projectileStep setFromObject projectile st of
        (keep, flags, p, st1) \<Rightarrow>
          (case filterProjectiles setFromObject rest st1 of
             (kept, st2) \<Rightarrow> (if keep then p # kept else kept, st2)))"

definition updateProjectiles :: "(mesh \<Rightarrow> box3) \<Rightarrow> scene_state \<Rightarrow> scene_state" where
  "updateProjectiles setFromObject st =
     (if \<not> sceneRef st then st
      else case filterProjectiles setFromObject (projectilesRef st) st of
        (kept, st1) \<Rightarrow> st1\<lparr>projectilesRef := kept\<rparr>)"

section \<open>Movement controller\<close>

text \<open>The validation box \<^verbatim>\<open>playerBox\<close> that \<^verbatim>\<open>checkCollision\<close> builds around a position.\<close>

definition playerBox :: "real \<Rightarrow> real \<Rightarrow> box3" where
  "playerBox newX newZ =
     \<lparr>bmin = \<lparr>vx = newX - 0.3, vy = 0, vz = newZ - 0.3\<rparr>,
      bmax = \<lparr>vx = newX + 0.3, vy = 2, vz = newZ + 0.3\<rparr>\<rparr>"

definition checkCollision :: "scene_state \<Rightarrow> real \<Rightarrow> real \<Rightarrow> bool" where
  "checkCollision st newX newZ =
     (if anyIntersects (playerBox newX newZ) (wallsRef st) then True
      else if anyIntersects (playerBox newX newZ) (map collisionBox (creaturesRef st)) then True
      else False)"

text \<open>
  Each of the six translation blocks of \<^verbatim>\<open>handleMovement\<close> has the same shape:
  when its key condition holds, it computes the candidate \<open>(newX, newZ)\<close> from the
  current position and, if \<^verbatim>\<open>checkCollision(newX, newZ)\<close> is false, writes both
  coordinates to the player and the camera and sets \<open>isMoving\<close>. \<open>tryMove\<close> is that
  block; \<open>ddx\<close> and \<open>ddz\<close> are the signed offsets the block adds to \<open>x\<close> and \<open>y\<close>.
\<close>

definition tryMove :: "bool \<Rightarrow> real \<Rightarrow> real \<Rightarrow> scene_state \<times> bool \<Rightarrow> scene_state \<times> bool" where
  "tryMove held ddx ddz sm =
     (let st = fst sm;
          newX = player_x (playerRef st) + ddx;
          newZ = player_y (playerRef st) + ddz
      in if held \<and> \<not> checkCollision st newX newZ
         then (st\<lparr>playerRef := (playerRef st)\<lparr>player_x := newX, player_y := newZ\<rparr>,
                  cameraRef := map_option
                    (\<lambda>c. c\<lparr>camera_position := (camera_position c)\<lparr>vx := newX, vz := newZ\<rparr>\<rparr>)
                    (cameraRef st)\<rparr>, True)
         else sm)"

definition turn :: "real \<Rightarrow> scene_state \<Rightarrow> scene_state" where
  "turn d st =
     (let a = player_angle (playerRef st) + d
      in st\<lparr>playerRef := (playerRef st)\<lparr>player_angle := a\<rparr>,
            cameraRef := map_option (\<lambda>c. c\<lparr>rotation_y := a\<rparr>) (cameraRef st)\<rparr>)"

definition headBob :: "bool \<Rightarrow> bool \<Rightarrow> scene_state \<Rightarrow> scene_state" where
  "headBob isShiftHeld moving st =
     (let b = (bobRef st)\<lparr>isMoving := moving\<rparr>
      in if moving then
           let bobSpeedMultiplier = (if isShiftHeld then 1.5 else 1);
               t = time b + 0.15 * bobSpeedMultiplier;
               bobAmount = sin t * 0.05
           in st\<lparr>bobRef := b\<lparr>time := t\<rparr>,
                 cameraRef := map_option
                   (\<lambda>c. c\<lparr>camera_position := (camera_position c)\<lparr>vy := baseY b + bobAmount\<rparr>\<rparr>)
                   (cameraRef st)\<rparr>
         else
           st\<lparr>bobRef := b\<lparr>time := 0\<rparr>,
              cameraRef := map_option
                (\<lambda>c. c\<lparr>camera_position := (camera_position c)
                         \<lparr>vy := baseY b + (vy (camera_position c) - baseY b) * 0.9\<rparr>\<rparr>)
                (cameraRef st)\<rparr>)"

text \<open>
  \<^verbatim>\<open>handleMovement\<close>. The pose is also reported to the external sink
  \<^verbatim>\<open>onPlayerMove\<close>, which does not change the state.
\<close>

definition handleMovement :: "scene_state \<Rightarrow> scene_state" where
  "handleMovement st =
     (case cameraRef st of
        None \<Rightarrow> st
      | Some cam \<Rightarrow>
          let keys = keysRef st;
              locked = isLocked st;
              baseSpeed = 0.04;
              sprintMultiplier = 2.0;
              isShiftHeld = (''ShiftLeft'' \<in> keys \<or> ''ShiftRight'' \<in> keys);
              moveSpeed = baseSpeed * (if isShiftHeld then sprintMultiplier else 1);
              rotateSpeed = 0.05;
              st1 = (if \<not> locked \<and> (''ArrowLeft'' \<in> keys \<or> ''KeyA'' \<in> keys)
                     then turn (- rotateSpeed) st else st);
              st2 = (if \<not> locked \<and> (''ArrowRight'' \<in> keys \<or> ''KeyD'' \<in> keys)
                     then turn rotateSpeed st1 else st1);
              a = player_angle (playerRef st2);
              m1 = tryMove (''ArrowUp'' \<in> keys \<or> ''KeyW'' \<in> keys)
                     (- (sin a * moveSpeed)) (- (cos a * moveSpeed)) (st2, False);
              m2 = tryMove (''ArrowDown'' \<in> keys \<or> ''KeyS'' \<in> keys)
                     (sin a * moveSpeed) (cos a * moveSpeed) m1;
              m3 = tryMove (''KeyA'' \<in> keys \<and> locked)
                     (- (cos a * moveSpeed)) (sin a * moveSpeed) m2;
              m4 = tryMove (''KeyD'' \<in> keys \<and> locked)
                     (cos a * moveSpeed) (- (sin a * moveSpeed)) m3;
              m5 = tryMove (''KeyQ'' \<in> keys \<and> \<not> locked)
                     (- (cos a * moveSpeed)) (sin a * moveSpeed) m4;
              m6 = tryMove (''KeyE'' \<in> keys \<and> \<not> locked)
                     (cos a * moveSpeed) (- (sin a * moveSpeed)) m5
          in headBob isShiftHeld (snd m6) (fst m6))"

section \<open>Creature pool\<close>

datatype error = TypeError

text \<open>
  \<^verbatim>\<open>walls[gridZ][gridX] === 0\<close>. Reading a row outside the array gives
  \<^verbatim>\<open>undefined\<close>, and indexing that throws; reading a cell outside its row gives
  \<^verbatim>\<open>undefined\<close>, which is not \<open>0\<close>.
\<close>

definition cellIsOpen :: "int list list \<Rightarrow> int \<Rightarrow> int \<Rightarrow> error + bool" where
  "cellIsOpen walls gridZ gridX =
     (if gridZ < 0 \<or> gridZ \<ge> int (length walls) then Inl TypeError
      else let row = walls ! nat gridZ
           in if gridX < 0 \<or> gridX \<ge> int (length row) then Inr False
              else Inr (row ! nat gridX = 0))"

definition setFromCenterAndSize :: "vector3 \<Rightarrow> vector3 \<Rightarrow> box3" where
  "setFromCenterAndSize center sz =
     (let halfSize = multiplyScalar sz 0.5
      in \<lparr>bmin = \<lparr>vx = vx center - vx halfSize, vy = vy center - vy halfSize,
                   vz = vz center - vz halfSize\<rparr>,
          bmax = \<lparr>vx = vx center + vx halfSize, vy = vy center + vy halfSize,
                   vz = vz center + vz halfSize\<rparr>\<rparr>)"

definition moveCreature :: "real \<Rightarrow> real \<Rightarrow> creature \<Rightarrow> creature" where
  "moveCreature newX newZ c =
     c\<lparr>body := (body c)\<lparr>position := (position (body c))\<lparr>vx := newX, vz := newZ\<rparr>\<rparr>,
       leftEye := (leftEye c)\<lparr>position := (position (leftEye c))\<lparr>vx := newX - 0.1, vz := newZ + 0.3\<rparr>\<rparr>,
       rightEye := (rightEye c)\<lparr>position := (position (rightEye c))\<lparr>vx := newX + 0.1, vz := newZ + 0.3\<rparr>\<rparr>,
       light := (light c)\<lparr>light_position := (light_position (light c))\<lparr>vx := newX, vz := newZ\<rparr>\<rparr>,
       collisionBox := setFromCenterAndSize \<lparr>vx = newX, vy = 0.8, vz = newZ\<rparr>
                                            \<lparr>vx = 0.8, vy = 1.6, vz = 0.8\<rparr>\<rparr>"

text \<open>
  The candidate position \<open>(newX, newZ)\<close> of a creature: one step of length
  \<^verbatim>\<open>moveSpeed\<close> from its position towards the player.
\<close>

definition stepTarget :: "real \<Rightarrow> real \<Rightarrow> creature \<Rightarrow> real \<times> real" where
  "stepTarget playerX playerZ creature =
     (let dx = playerX - vx (position (body creature));
          dz = playerZ - vz (position (body creature));
          distance = sqrt (dx * dx + dz * dz);
          moveSpeed = 0.02
      in (vx (position (body creature)) + dx / distance * moveSpeed,
          vz (position (body creature)) + dz / distance * moveSpeed))"

text \<open>
  The grid cell \<open>(gridX, gridZ)\<close> of a world position, by the inverse of the transform
  that places the cells; \<open>width\<close> is \<^verbatim>\<open>walls[0].length\<close>, \<open>height\<close> is
  \<^verbatim>\<open>walls.length\<close>, and the cell size is \<open>2\<close>.
\<close>

definition gridCell :: "nat \<Rightarrow> nat \<Rightarrow> real \<Rightarrow> real \<Rightarrow> int \<times> int" where
  "gridCell width height x z =
     (\<lfloor>(x + (real width * 2) / 2) / 2\<rfloor>, \<lfloor>(z + (real height * 2) / 2) / 2\<rfloor>)"

text \<open>
  The callback of \<^verbatim>\<open>creatures.forEach\<close> for one creature; \<open>now\<close> is
  \<^verbatim>\<open>Date.now() * 0.001\<close>. \<^verbatim>\<open>walls[0].length\<close> throws when the grid has no row. An
  exception leaves the changes made so far in place, so the result is the creature as it
  is when the callback ends, and the error if one was thrown.
\<close>

definition stepCreature ::
  "int list list \<Rightarrow> box3 list \<Rightarrow> real \<Rightarrow> real \<Rightarrow> real \<Rightarrow> nat \<Rightarrow> creature \<Rightarrow> creature \<times> error option" where
  "stepCreature walls wallBoxes playerX playerZ now index creature =
     (let c = creature\<lparr>body := (body creature)\<lparr>position := (position (body creature))
                \<lparr>vy := 0.8 + sin (now + real index) * 0.1\<rparr>\<rparr>\<rparr>;
          dx = playerX - vx (position (body c));
          dz = playerZ - vz (position (body c));
          distance = sqrt (dx * dx + dz * dz)
      in if distance > 1.5 then
           (case stepTarget playerX playerZ c of
              (newX, newZ) \<Rightarrow>
                (case walls of
                   [] \<Rightarrow> (c, Some TypeError)
                 | row0 # _ \<Rightarrow>
                     (case gridCell (length row0) (length walls) newX newZ of
                        (gridX, gridZ) \<Rightarrow>
                          if gridX \<ge> 0 \<and> gridX < int (length row0) \<and>
                             gridZ \<ge> 0 \<and> gridZ < int (length walls)
                          then (case cellIsOpen walls gridZ gridX of
                                  Inl e \<Rightarrow> (c, Some e)
                                | Inr False \<Rightarrow> (c, None)
                                | Inr True \<Rightarrow>
                                    let creatureBox =
                                          \<lparr>bmin = \<lparr>vx = newX - 0.4, vy = 0, vz = newZ - 0.4\<rparr>,
                                           bmax = \<lparr>vx = newX + 0.4, vy = 1.6, vz = newZ + 0.4\<rparr>\<rparr>;
                                        canMove = \<not> anyIntersects creatureBox wallBoxes
                                    in if canMove then (moveCreature newX newZ c, None)
                                       else (c, None))
                          else (c, None))))
         else (c, None))"

fun creaturesLoop ::
  "int list list \<Rightarrow> box3 list \<Rightarrow> real \<Rightarrow> real \<Rightarrow> real \<Rightarrow> nat \<Rightarrow> creature list \<Rightarrow> creature list \<times> error option" where
  "creaturesLoop walls wallBoxes playerX playerZ now index [] = ([], None)"
| "creaturesLoop walls wallBoxes playerX playerZ now index (creature # rest) =
     (case stepCreature walls wallBoxes playerX playerZ now index creature of
        (c, Some e) \<Rightarrow> (c # rest, Some e)
      | (c, None) \<Rightarrow>
          (case creaturesLoop walls wallBoxes playerX playerZ now (Suc index) rest of
             (cs, err) \<Rightarrow> (c # cs, err)))"

text \<open>
  \<^verbatim>\<open>updateCreatures\<close>. The positions are also reported to the external sink
  \<^verbatim>\<open>onCreatureUpdate\<close>, which does not change the state.
\<close>

definition updateCreatures :: "real \<Rightarrow> scene_state \<Rightarrow> scene_state \<times> error option" where
  "updateCreatures now st =
     (case mapDataRef st of
        None \<Rightarrow> (st, None)
      | Some walls \<Rightarrow>
          (case creaturesLoop walls (wallsRef st) (player_x (playerRef st))
                  (player_y (playerRef st)) now 0 (creaturesRef st) of
             (cs, err) \<Rightarrow> (st\<lparr>creaturesRef := cs\<rparr>, err)))"

text \<open>
  A creature stands on a floor cell when the grid cell of its body position lies inside
  the grid and holds \<open>0\<close>.
\<close>

definition onFloor :: "int list list \<Rightarrow> creature \<Rightarrow> bool" where
  "onFloor walls creature =
     (case walls of
        [] \<Rightarrow> False
      | row0 # _ \<Rightarrow>
          (case gridCell (length row0) (length walls)
                  (vx (position (body creature))) (vz (position (body creature))) of
             (gridX, gridZ) \<Rightarrow>
               0 \<le> gridX \<and> gridX < int (length row0) \<and>
               0 \<le> gridZ \<and> gridZ < int (length walls) \<and>
               nat gridX < length (walls ! nat gridZ) \<and>
               walls ! nat gridZ ! nat gridX = 0))"

section \<open>Creature spawning\<close>

text \<open>The scan of one row, from column \<open>col\<close> on, for cells equal to \<open>0\<close>.\<close>

fun rowSpaces :: "nat \<Rightarrow> nat \<Rightarrow> nat \<Rightarrow> nat \<Rightarrow> int list \<Rightarrow> (real \<times> real) list" where
  "rowSpaces width height row col [] = []"
| "rowSpaces width height row col (cell # cells) =
     (if cell = 0
      then [((real col - real width / 2) * 2, (real row - real height / 2) * 2)]
      else []) @ rowSpaces width height row (Suc col) cells"

text \<open>
  The scan of the rows from \<open>row\<close> on; \<open>width\<close> is \<^verbatim>\<open>walls[0].length\<close> and \<open>height\<close> is
  \<^verbatim>\<open>walls.length\<close>.
\<close>

fun gridSpaces :: "nat \<Rightarrow> nat \<Rightarrow> nat \<Rightarrow> int list list \<Rightarrow> (real \<times> real) list" where
  "gridSpaces width height row [] = []"
| "gridSpaces width height row (cells # rows) =
     rowSpaces width height row 0 cells @ gridSpaces width height (Suc row) rows"

definition openSpacesOf :: "int list list \<Rightarrow> (real \<times> real) list" where
  "openSpacesOf walls =
     (case walls of
        [] \<Rightarrow> []
      | row0 # _ \<Rightarrow> gridSpaces (length row0) (length walls) 0 walls)"

definition numCreaturesOf :: "nat \<Rightarrow> nat" where
  "numCreaturesOf openCellCount = min 5 (max 3 (openCellCount div 10))"

definition spawnCreature :: "real \<times> real \<Rightarrow> scene_state \<Rightarrow> scene_state" where
  "spawnCreature pos st =
     (let px = fst pos; pz = snd pos;
          bodyGeometry = nextId st;
          bodyMaterial = nextId st + 1;
          eyeGeometry = nextId st + 2;
          eyeMaterial = nextId st + 3;
          glowLight = nextId st + 4;
          c = \<lparr>body = \<lparr>position = \<lparr>vx = px, vy = 0.8, vz = pz\<rparr>,
                       geometry = bodyGeometry, material = Single bodyMaterial, children = []\<rparr>,
               leftEye = \<lparr>position = \<lparr>vx = px - 0.1, vy = 1.3, vz = pz + 0.3\<rparr>,
                          geometry = eyeGeometry, material = Single eyeMaterial, children = []\<rparr>,
               rightEye = \<lparr>position = \<lparr>vx = px + 0.1, vy = 1.3, vz = pz + 0.3\<rparr>,
                           geometry = eyeGeometry, material = Single eyeMaterial, children = []\<rparr>,
               light = \<lparr>light_position = \<lparr>vx = px, vy = 1, vz = pz\<rparr>, light_id = glowLight\<rparr>,
               targetX = px, targetZ = pz,
               collisionBox = \<lparr>bmin = \<lparr>vx = px - 0.4, vy = 0, vz = pz - 0.4\<rparr>,
                               bmax = \<lparr>vx = px + 0.4, vy = 1.6, vz = pz + 0.4\<rparr>\<rparr>\<rparr>
      in st\<lparr>creaturesRef := creaturesRef st @ [c], nextId := nextId st + 5\<rparr>)"

text \<open>
  The loop \<^verbatim>\<open>for (let i = 0; i < numCreatures; i++)\<close>: \<open>spawnLoop sp i n\<close> runs the
  \<open>n\<close> iterations from index \<open>i\<close> on. \<^verbatim>\<open>shuffledSpaces[i]\<close> is \<^verbatim>\<open>undefined\<close> beyond
  the end of the array, and the iteration is then skipped.
\<close>

fun spawnLoop :: "(real \<times> real) list \<Rightarrow> nat \<Rightarrow> nat \<Rightarrow> scene_state \<Rightarrow> scene_state" where
  "spawnLoop shuffledSpaces i 0 st = st"
| "spawnLoop shuffledSpaces i (Suc n) st =
     (if i < length shuffledSpaces
      then spawnLoop shuffledSpaces (Suc i) n (spawnCreature (shuffledSpaces ! i) st)
      else spawnLoop shuffledSpaces (Suc i) n st)"

text \<open>
  \<^verbatim>\<open>createShadowCreatures\<close>. \<^verbatim>\<open>openSpaces.sort(() => Math.random() - 0.5)\<close>
  rearranges the array at random; the rearrangement is the parameter \<open>shuffle\<close>.
\<close>

definition createShadowCreatures ::
  "((real \<times> real) list \<Rightarrow> (real \<times> real) list) \<Rightarrow> scene_state \<Rightarrow> scene_state" where
  "createShadowCreatures shuffle st =
     (let st1 = st\<lparr>cleanupQueueRef := cleanupQueueRef st @ map cleanupBundle (creaturesRef st),
                   creaturesRef := []\<rparr>
      in case mapDataRef st1 of
           None \<Rightarrow> st1
         | Some walls \<Rightarrow>
             let openSpaces = openSpacesOf walls;
                 numCreatures = numCreaturesOf (length openSpaces);
                 shuffledSpaces = shuffle openSpaces
             in spawnLoop shuffledSpaces 0 numCreatures st1)"

section \<open>Frame scheduler\<close>

text \<open>
  One run of \<^verbatim>\<open>animate\<close>, without the drawing. An exception thrown by the creature
  update ends the frame there.
\<close>

definition animate :: "(mesh \<Rightarrow> box3) \<Rightarrow> real \<Rightarrow> scene_state \<Rightarrow> scene_state \<times> error option" where
  "animate setFromObject now st =
     (let st1 = handleMovement st;
          st2 = updateProjectiles setFromObject st1
      in case updateCreatures now st2 of
           (st3, Some e) \<Rightarrow> (st3, Some e)
         | (st3, None) \<Rightarrow> (processCleanupQueue st3, None))"

section \<open>Example scenes\<close>

text \<open>
  A scene for the movement controller: the player stands at the origin and looks along
  the direction with sine \<open>3/5\<close> and cosine \<open>4/5\<close>; only the forward key is held. One
  wall box lies to the side of negative \<open>x\<close>, its face at \<open>x = -0.31\<close>, one hundredth
  of a unit away from the player's validation box.
\<close>

definition slideCamera :: camera where
  "slideCamera = \<lparr>camera_position = \<lparr>vx = 0, vy = 1.6, vz = 0\<rparr>, rotation_y = arctan (3/4)\<rparr>"

definition slideScene :: scene_state where
  "slideScene =
     \<lparr>sceneRef = True,
      cameraRef = Some slideCamera,
      playerRef = \<lparr>player_x = 0, player_y = 0, player_angle = arctan (3/4)\<rparr>,
      keysRef = {''KeyW''},
      isLocked = False,
      wallsRef = [\<lparr>bmin = \<lparr>vx = - 5, vy = 0, vz = - 5\<rparr>, bmax = \<lparr>vx = - 0.31, vy = 2.4, vz = 5\<rparr>\<rparr>],
      projectilesRef = [],
      creaturesRef = [],
      mapDataRef = None,
      bobRef = \<lparr>time = 0, isMoving = False, baseY = 1.6\<rparr>,
      cleanupQueueRef = [],
      disposed = [],
      nextId = 0\<rparr>"

text \<open>
  A scene for the projectile system. The world box of a bolt that flies along the \<open>z\<close>
  axis is the box of a cylinder of length \<open>0.8\<close> around the mesh position, widened to the
  radius \<open>0.08\<close> of the glow. \<open>openScene\<close> is a map of two by two floor cells, with no
  walls and no creatures; in
  \<open>flightScene\<close> a bolt has been shot along \<open>-z\<close>; in \<open>hitScene\<close> two creatures
  stand in the bolt's way, both within reach of its first step.
\<close>

definition boltBox :: "mesh \<Rightarrow> box3" where
  "boltBox m =
     \<lparr>bmin = \<lparr>vx = vx (position m) - 0.08, vy = vy (position m) - 0.08, vz = vz (position m) - 0.4\<rparr>,
      bmax = \<lparr>vx = vx (position m) + 0.08, vy = vy (position m) + 0.08, vz = vz (position m) + 0.4\<rparr>\<rparr>"

definition openScene :: scene_state where
  "openScene =
     \<lparr>sceneRef = True,
      cameraRef = Some \<lparr>camera_position = \<lparr>vx = 0, vy = 1.6, vz = 0\<rparr>, rotation_y = 0\<rparr>,
      playerRef = \<lparr>player_x = 0, player_y = 0, player_angle = 0\<rparr>,
      keysRef = {},
      isLocked = False,
      wallsRef = [],
      projectilesRef = [],
      creaturesRef = [],
      mapDataRef = Some [[0, 0], [0, 0]],
      bobRef = \<lparr>time = 0, isMoving = False, baseY = 1.6\<rparr>,
      cleanupQueueRef = [],
      disposed = [],
      nextId = 0\<rparr>"

definition flightScene :: scene_state where
  "flightScene = shoot \<lparr>vx = 0, vy = 0, vz = - 1\<rparr> openScene"

definition hitScene :: scene_state where
  "hitScene = shoot \<lparr>vx = 0, vy = 0, vz = - 1\<rparr>
                (spawnCreature (0, - 1) (spawnCreature (0, - 0.8) openScene))"

text \<open>
  Scenes for creature spawning: a map of one row with two floor cells, and a map of eight
  by eight cells of which \<open>50\<close> are floor.
\<close>

definition twoCellScene :: scene_state where
  "twoCellScene = openScene\<lparr>mapDataRef := Some [[0, 0]]\<rparr>"

definition fiftyCellMap :: "int list list" where
  "fiftyCellMap =
     [[1, 1, 1, 1, 1, 1, 1, 1],
      [0, 0, 0, 0, 0, 0, 0, 0],
      [0, 0, 0, 0, 0, 0, 0, 0],
      [0, 0, 0, 0, 0, 0, 0, 0],
      [0, 0, 0, 0, 0, 0, 0, 0],
      [0, 0, 0, 0, 0, 0, 0, 0],
      [0, 0, 0, 0, 0, 0, 0, 0],
      [1, 0, 0, 1, 1, 1, 1, 1]]"

definition fiftyCellScene :: scene_state where
  "fiftyCellScene = openScene\<lparr>mapDataRef := Some fiftyCellMap\<rparr>"

text \<open>
  A scene for the creature pool: on the map of two by two cells, whose world extent in
  \<open>x\<close> is from \<open>-2\<close> to \<open>2\<close>, a creature stands at \<open>x = 1.99\<close> and the player at
  \<open>x = 4.99\<close>, outside the grid, so that the creature's next candidate lies beyond the last
  column.
\<close>

definition edgeScene :: scene_state where
  "edgeScene =
     spawnCreature (1.99, 0)
       (openScene\<lparr>playerRef := \<lparr>player_x = 4.99, player_y = 0, player_angle = 0\<rparr>\<rparr>)"

section \<open>Properties of the cleanup queue\<close>

lemma processCleanupQueue_queue:
  "cleanupQueueRef (processCleanupQueue st) = drop 2 (cleanupQueueRef st)"
  by (simp add: processCleanupQueue_def Let_def)

lemma processCleanupQueue_disposed:
  "disposed (processCleanupQueue st) =
     disposed st @ concat (map disposeItem (take 2 (cleanupQueueRef st)))"
  by (simp add: processCleanupQueue_def Let_def)

lemma processCleanupQueue_passes:
  "cleanupQueueRef ((processCleanupQueue ^^ n) st) = drop (2 * n) (cleanupQueueRef st)"
proof (induction n)
  case 0
  show ?case by simp
next
  case (Suc n)
  have "cleanupQueueRef ((processCleanupQueue ^^ Suc n) st) =
          drop 2 (cleanupQueueRef ((processCleanupQueue ^^ n) st))"
    by (simp add: processCleanupQueue_queue)
  also have "\<dots> = drop (2 * Suc n) (cleanupQueueRef st)"
    by (simp add: Suc.IH add.commute)
  finally show ?case .
qed

text \<open>
  C6. One cleanup pass removes the first two entries of the queue (all of them when
  there are fewer) and releases exactly those, front first; the rest keeps its order.
  With no new enqueues, a queue of \<open>N\<close> entries is empty after \<open>n\<close> passes exactly when
  \<open>n\<close> is at least \<open>ceil(N/2)\<close>, so it first becomes empty after exactly
  \<open>ceil(N/2)\<close> passes.
\<close>

theorem cleanup_drains_two_per_pass:
  "cleanupQueueRef (processCleanupQueue st) = drop 2 (cleanupQueueRef st) \<and>
   disposed (processCleanupQueue st) =
     disposed st @ concat (map disposeItem (take 2 (cleanupQueueRef st))) \<and>
   length (cleanupQueueRef st) - length (cleanupQueueRef (processCleanupQueue st)) \<le> 2 \<and>
   (cleanupQueueRef ((processCleanupQueue ^^ n) st) = []) =
     ((length (cleanupQueueRef st) + 1) div 2 \<le> n)"
proof -
  have "(cleanupQueueRef ((processCleanupQueue ^^ n) st) = []) =
          (length (cleanupQueueRef st) \<le> 2 * n)"
    by (simp add: processCleanupQueue_passes)
  also have "\<dots> = ((length (cleanupQueueRef st) + 1) div 2 \<le> n)"
    by presburger
  finally show ?thesis
    by (simp add: processCleanupQueue_queue processCleanupQueue_disposed)
qed

section \<open>Properties of the movement controller\<close>

lemma anyIntersects_iff: "anyIntersects b ws \<longleftrightarrow> (\<exists>w\<in>set ws. intersectsBox b w)"
  by (induction ws) auto

lemma checkCollision_iff:
  "checkCollision st x z \<longleftrightarrow>
     (\<exists>w\<in>set (wallsRef st). intersectsBox (playerBox x z) w) \<or>
     (\<exists>c\<in>set (creaturesRef st). intersectsBox (playerBox x z) (collisionBox c))"
  by (auto simp: checkCollision_def anyIntersects_iff)

lemma tryMove_env:
  "wallsRef (fst (tryMove h dx dz sm)) = wallsRef (fst sm)"
  "creaturesRef (fst (tryMove h dx dz sm)) = creaturesRef (fst sm)"
  "player_angle (playerRef (fst (tryMove h dx dz sm))) = player_angle (playerRef (fst sm))"
  by (simp_all add: tryMove_def Let_def)

lemma turn_env:
  "wallsRef (turn d st) = wallsRef st"
  "creaturesRef (turn d st) = creaturesRef st"
  "player_x (playerRef (turn d st)) = player_x (playerRef st)"
  "player_y (playerRef (turn d st)) = player_y (playerRef st)"
  by (simp_all add: turn_def Let_def)

lemma headBob_env:
  "wallsRef (headBob s m st) = wallsRef st"
  "creaturesRef (headBob s m st) = creaturesRef st"
  "playerRef (headBob s m st) = playerRef st"
  by (simp_all add: headBob_def Let_def)

lemma handleMovement_env:
  "wallsRef (handleMovement st) = wallsRef st"
  "creaturesRef (handleMovement st) = creaturesRef st"
  unfolding handleMovement_def Let_def
  by (simp_all add: headBob_env tryMove_env turn_env split: option.splits)

text \<open>A position is free when \<^verbatim>\<open>checkCollision\<close> is false there.\<close>

lemma tryMove_free:
  assumes "\<not> checkCollision (fst sm) (player_x (playerRef (fst sm))) (player_y (playerRef (fst sm)))"
  shows "\<not> checkCollision (fst (tryMove h dx dz sm))
            (player_x (playerRef (fst (tryMove h dx dz sm))))
            (player_y (playerRef (fst (tryMove h dx dz sm))))"
  using assms by (auto simp add: tryMove_def Let_def checkCollision_iff)

lemma turn_free:
  "checkCollision (turn d st) (player_x (playerRef (turn d st))) (player_y (playerRef (turn d st))) =
   checkCollision st (player_x (playerRef st)) (player_y (playerRef st))"
  by (simp add: turn_env checkCollision_iff)

lemma headBob_free:
  "checkCollision (headBob s m st) (player_x (playerRef (headBob s m st)))
      (player_y (playerRef (headBob s m st))) =
   checkCollision st (player_x (playerRef st)) (player_y (playerRef st))"
  by (simp add: headBob_env checkCollision_iff)

lemma handleMovement_free:
  assumes "\<not> checkCollision st (player_x (playerRef st)) (player_y (playerRef st))"
  shows "\<not> checkCollision (handleMovement st) (player_x (playerRef (handleMovement st)))
            (player_y (playerRef (handleMovement st)))"
  using assms unfolding handleMovement_def Let_def
  by (auto split: option.splits intro!: tryMove_free simp: headBob_free turn_free)

text \<open>
  C3. No-clip invariant. If the validation box around the player's position intersects no
  wall box and no box of a creature in the pool before \<^verbatim>\<open>handleMovement\<close>, then the
  validation box around the position after it intersects none of them either. The walls
  and the creatures are the same before and after.
\<close>

theorem handleMovement_no_clip:
  assumes "\<forall>w\<in>set (wallsRef st).
             \<not> intersectsBox (playerBox (player_x (playerRef st)) (player_y (playerRef st))) w"
    and "\<forall>c\<in>set (creaturesRef st).
             \<not> intersectsBox (playerBox (player_x (playerRef st)) (player_y (playerRef st)))
                 (collisionBox c)"
  shows "(\<forall>w\<in>set (wallsRef (handleMovement st)).
             \<not> intersectsBox (playerBox (player_x (playerRef (handleMovement st)))
                                (player_y (playerRef (handleMovement st)))) w) \<and>
         (\<forall>c\<in>set (creaturesRef (handleMovement st)).
             \<not> intersectsBox (playerBox (player_x (playerRef (handleMovement st)))
                                (player_y (playerRef (handleMovement st)))) (collisionBox c)) \<and>
         wallsRef (handleMovement st) = wallsRef st \<and>
         creaturesRef (handleMovement st) = creaturesRef st"
proof -
  have "\<not> checkCollision st (player_x (playerRef st)) (player_y (playerRef st))"
    using assms by (simp add: checkCollision_iff)
  then have "\<not> checkCollision (handleMovement st) (player_x (playerRef (handleMovement st)))
            (player_y (playerRef (handleMovement st)))"
    by (rule handleMovement_free)
  then show ?thesis
    by (simp add: checkCollision_iff handleMovement_env)
qed

theorem handleMovement_no_clip_witness:
  "\<not> checkCollision slideScene (player_x (playerRef slideScene)) (player_y (playerRef slideScene)) \<and>
   \<not> checkCollision (handleMovement slideScene)
       (player_x (playerRef (handleMovement slideScene)))
       (player_y (playerRef (handleMovement slideScene)))"
proof -
  have walls: "\<forall>w\<in>set (wallsRef slideScene).
       \<not> intersectsBox (playerBox (player_x (playerRef slideScene))
                                   (player_y (playerRef slideScene))) w"
    by (simp add: slideScene_def playerBox_def intersectsBox_def)
  have creatures: "\<forall>c\<in>set (creaturesRef slideScene).
       \<not> intersectsBox (playerBox (player_x (playerRef slideScene))
                                   (player_y (playerRef slideScene))) (collisionBox c)"
    by (simp add: slideScene_def)
  from handleMovement_no_clip [OF walls creatures] walls creatures show ?thesis
    unfolding checkCollision_iff by blast
qed

lemma sqrt_25_16: "sqrt (1 + (3/4)\<^sup>2) = (5/4 :: real)"
proof -
  have "(1::real) + (3/4)\<^sup>2 = (5/4)\<^sup>2" by (simp add: power2_eq_square)
  then have "sqrt (1 + (3/4)\<^sup>2) = sqrt ((5/4 :: real)\<^sup>2)" by (rule arg_cong)
  also have "\<dots> = 5/4" by simp
  finally show ?thesis .
qed

lemma sin_arctan_3_4: "sin (arctan (3/4)) = (3/5 :: real)"
  by (simp only: sin_arctan sqrt_25_16) simp

lemma cos_arctan_3_4: "cos (arctan (3/4)) = (4/5 :: real)"
  by (simp only: cos_arctan sqrt_25_16) simp

lemma tryMove_False: "tryMove False dx dz sm = sm"
  by (simp add: tryMove_def)

lemma tryMove_blocked:
  "checkCollision st (player_x (playerRef st) + dx) (player_y (playerRef st) + dz) \<Longrightarrow>
   tryMove h dx dz (st, m) = (st, m)"
  by (simp add: tryMove_def)

lemma handleMovement_only_KeyW:
  assumes "cameraRef st = Some cam" and "keysRef st = {''KeyW''}"
  shows "playerRef (handleMovement st) =
         playerRef (fst (tryMove True (- (sin (player_angle (playerRef st)) * 0.04))
                                      (- (cos (player_angle (playerRef st)) * 0.04)) (st, False)))"
  unfolding handleMovement_def Let_def
  by (simp add: assms tryMove_False headBob_env)

lemma handleMovement_blocks:
  assumes cam: "cameraRef st = Some cam"
  shows "\<exists>f b l r q e.
    (let keys = keysRef st;
         locked = isLocked st;
         a = player_angle (playerRef st)
               - (if \<not> locked \<and> (''ArrowLeft'' \<in> keys \<or> ''KeyA'' \<in> keys) then 0.05 else 0)
               + (if \<not> locked \<and> (''ArrowRight'' \<in> keys \<or> ''KeyD'' \<in> keys) then 0.05 else 0);
         moveSpeed = 0.04 * (if ''ShiftLeft'' \<in> keys \<or> ''ShiftRight'' \<in> keys then 2 else 1);
         s = sin a * moveSpeed;
         c = cos a * moveSpeed;
         x0 = player_x (playerRef st);
         z0 = player_y (playerRef st)
     in f = ((''ArrowUp'' \<in> keys \<or> ''KeyW'' \<in> keys) \<and>
             \<not> checkCollision st (x0 - s) (z0 - c)) \<and>
        b = ((''ArrowDown'' \<in> keys \<or> ''KeyS'' \<in> keys) \<and>
             \<not> checkCollision st (x0 - of_bool f * s + s) (z0 - of_bool f * c + c)) \<and>
        l = ((''KeyA'' \<in> keys \<and> locked) \<and>
             \<not> checkCollision st (x0 - of_bool f * s + of_bool b * s - c)
                                  (z0 - of_bool f * c + of_bool b * c + s)) \<and>
        r = ((''KeyD'' \<in> keys \<and> locked) \<and>
             \<not> checkCollision st (x0 - of_bool f * s + of_bool b * s - of_bool l * c + c)
                                  (z0 - of_bool f * c + of_bool b * c + of_bool l * s - s)) \<and>
        q = ((''KeyQ'' \<in> keys \<and> \<not> locked) \<and>
             \<not> checkCollision st
                 (x0 - of_bool f * s + of_bool b * s - of_bool l * c + of_bool r * c - c)
                 (z0 - of_bool f * c + of_bool b * c + of_bool l * s - of_bool r * s + s)) \<and>
        e = ((''KeyE'' \<in> keys \<and> \<not> locked) \<and>
             \<not> checkCollision st
                 (x0 - of_bool f * s + of_bool b * s - of_bool l * c + of_bool r * c
                     - of_bool q * c + c)
                 (z0 - of_bool f * c + of_bool b * c + of_bool l * s - of_bool r * s
                     + of_bool q * s - s)) \<and>
        player_angle (playerRef (handleMovement st)) = a \<and>
        player_x (playerRef (handleMovement st)) =
          x0 - of_bool f * s + of_bool b * s - of_bool l * c + of_bool r * c
             - of_bool q * c + of_bool e * c \<and>
        player_y (playerRef (handleMovement st)) =
          z0 - of_bool f * c + of_bool b * c + of_bool l * s - of_bool r * s
             + of_bool q * s - of_bool e * s)"
proof -
  define keys where "keys = keysRef st"
  define locked where "locked = isLocked st"
  define shift where "shift \<longleftrightarrow> ''ShiftLeft'' \<in> keys \<or> ''ShiftRight'' \<in> keys"
  define ms :: real where "ms = 0.04 * (if shift then 2 else 1)"
  define st1 where "st1 = (if \<not> locked \<and> (''ArrowLeft'' \<in> keys \<or> ''KeyA'' \<in> keys)
                     then turn (- 0.05) st else st)"
  define st2 where "st2 = (if \<not> locked \<and> (''ArrowRight'' \<in> keys \<or> ''KeyD'' \<in> keys)
                     then turn 0.05 st1 else st1)"
  define a where "a = player_angle (playerRef st2)"
  define s where "s = sin a * ms"
  define c where "c = cos a * ms"
  define x0 where "x0 = player_x (playerRef st)"
  define z0 where "z0 = player_y (playerRef st)"
  define m1 where "m1 = tryMove (''ArrowUp'' \<in> keys \<or> ''KeyW'' \<in> keys) (- s) (- c) (st2, False)"
  define m2 where "m2 = tryMove (''ArrowDown'' \<in> keys \<or> ''KeyS'' \<in> keys) s c m1"
  define m3 where "m3 = tryMove (''KeyA'' \<in> keys \<and> locked) (- c) s m2"
  define m4 where "m4 = tryMove (''KeyD'' \<in> keys \<and> locked) c (- s) m3"
  define m5 where "m5 = tryMove (''KeyQ'' \<in> keys \<and> \<not> locked) (- c) s m4"
  define m6 where "m6 = tryMove (''KeyE'' \<in> keys \<and> \<not> locked) c (- s) m5"
  have hm: "handleMovement st = headBob shift (snd m6) (fst m6)"
    unfolding handleMovement_def Let_def m6_def m5_def m4_def m3_def m2_def m1_def s_def c_def
      a_def st2_def st1_def ms_def shift_def locked_def keys_def
    by (simp add: cam)
  have a_eq: "a = player_angle (playerRef st)
               - (if \<not> locked \<and> (''ArrowLeft'' \<in> keys \<or> ''KeyA'' \<in> keys) then 0.05 else 0)
               + (if \<not> locked \<and> (''ArrowRight'' \<in> keys \<or> ''KeyD'' \<in> keys) then 0.05 else 0)"
    by (simp add: a_def st2_def st1_def turn_def Let_def)
  have p2: "player_x (playerRef st2) = x0" "player_y (playerRef st2) = z0"
    by (simp_all add: st2_def st1_def turn_env x0_def z0_def)
  have env2: "wallsRef st2 = wallsRef st" "creaturesRef st2 = creaturesRef st"
    by (simp_all add: st2_def st1_def turn_env)
  have cc: "checkCollision (fst m) x z = checkCollision st x z"
    if "wallsRef (fst m) = wallsRef st" "creaturesRef (fst m) = creaturesRef st" for m x z
    using that by (simp add: checkCollision_iff)
  have e1: "wallsRef (fst m1) = wallsRef st" "creaturesRef (fst m1) = creaturesRef st"
    by (simp_all add: m1_def tryMove_env env2)
  have e2: "wallsRef (fst m2) = wallsRef st" "creaturesRef (fst m2) = creaturesRef st"
    by (simp_all add: m2_def tryMove_env e1)
  have e3: "wallsRef (fst m3) = wallsRef st" "creaturesRef (fst m3) = creaturesRef st"
    by (simp_all add: m3_def tryMove_env e2)
  have e4: "wallsRef (fst m4) = wallsRef st" "creaturesRef (fst m4) = creaturesRef st"
    by (simp_all add: m4_def tryMove_env e3)
  have e5: "wallsRef (fst m5) = wallsRef st" "creaturesRef (fst m5) = creaturesRef st"
    by (simp_all add: m5_def tryMove_env e4)
  have ang: "player_angle (playerRef (handleMovement st)) = a"
    by (simp add: hm headBob_env m6_def m5_def m4_def m3_def m2_def m1_def tryMove_env a_def)
  have step: "player_x (playerRef (fst (tryMove h dx dz m))) =
                player_x (playerRef (fst m)) +
                of_bool (h \<and> \<not> checkCollision st (player_x (playerRef (fst m)) + dx)
                                                   (player_y (playerRef (fst m)) + dz)) * dx \<and>
              player_y (playerRef (fst (tryMove h dx dz m))) =
                player_y (playerRef (fst m)) +
                of_bool (h \<and> \<not> checkCollision st (player_x (playerRef (fst m)) + dx)
                                                   (player_y (playerRef (fst m)) + dz)) * dz"
    if "wallsRef (fst m) = wallsRef st" "creaturesRef (fst m) = creaturesRef st" for h dx dz m
    using cc[OF that] by (simp add: tryMove_def Let_def)
  define f where "f = ((''ArrowUp'' \<in> keys \<or> ''KeyW'' \<in> keys) \<and>
             \<not> checkCollision st (x0 - s) (z0 - c))"
  have x1: "player_x (playerRef (fst m1)) = x0 - of_bool f * s"
    and z1: "player_y (playerRef (fst m1)) = z0 - of_bool f * c"
    using step[of "(st2, False)" "''ArrowUp'' \<in> keys \<or> ''KeyW'' \<in> keys" "- s" "- c"]
    by (simp_all add: m1_def f_def p2 env2)
  define b where "b = ((''ArrowDown'' \<in> keys \<or> ''KeyS'' \<in> keys) \<and>
             \<not> checkCollision st (x0 - of_bool f * s + s) (z0 - of_bool f * c + c))"
  have x2: "player_x (playerRef (fst m2)) = x0 - of_bool f * s + of_bool b * s"
    and z2: "player_y (playerRef (fst m2)) = z0 - of_bool f * c + of_bool b * c"
    using step[OF e1, of "''ArrowDown'' \<in> keys \<or> ''KeyS'' \<in> keys" s c]
    by (simp_all add: m2_def b_def x1 z1)
  define l where "l = ((''KeyA'' \<in> keys \<and> locked) \<and>
             \<not> checkCollision st (x0 - of_bool f * s + of_bool b * s - c)
                                  (z0 - of_bool f * c + of_bool b * c + s))"
  have x3: "player_x (playerRef (fst m3)) = x0 - of_bool f * s + of_bool b * s - of_bool l * c"
    and z3: "player_y (playerRef (fst m3)) = z0 - of_bool f * c + of_bool b * c + of_bool l * s"
    using step[OF e2, of "''KeyA'' \<in> keys \<and> locked" "- c" s]
    by (simp_all add: m3_def l_def x2 z2)
  define r where "r = ((''KeyD'' \<in> keys \<and> locked) \<and>
             \<not> checkCollision st (x0 - of_bool f * s + of_bool b * s - of_bool l * c + c)
                                  (z0 - of_bool f * c + of_bool b * c + of_bool l * s - s))"
  have x4: "player_x (playerRef (fst m4)) =
              x0 - of_bool f * s + of_bool b * s - of_bool l * c + of_bool r * c"
    and z4: "player_y (playerRef (fst m4)) =
              z0 - of_bool f * c + of_bool b * c + of_bool l * s - of_bool r * s"
    using step[OF e3, of "''KeyD'' \<in> keys \<and> locked" c "- s"]
    by (simp_all add: m4_def r_def x3 z3)
  define q where "q = ((''KeyQ'' \<in> keys \<and> \<not> locked) \<and>
             \<not> checkCollision st
                 (x0 - of_bool f * s + of_bool b * s - of_bool l * c + of_bool r * c - c)
                 (z0 - of_bool f * c + of_bool b * c + of_bool l * s - of_bool r * s + s))"
  have x5: "player_x (playerRef (fst m5)) =
              x0 - of_bool f * s + of_bool b * s - of_bool l * c + of_bool r * c - of_bool q * c"
    and z5: "player_y (playerRef (fst m5)) =
              z0 - of_bool f * c + of_bool b * c + of_bool l * s - of_bool r * s + of_bool q * s"
    using step[OF e4, of "''KeyQ'' \<in> keys \<and> \<not> locked" "- c" s]
    by (simp_all add: m5_def q_def x4 z4)
  define e where "e = ((''KeyE'' \<in> keys \<and> \<not> locked) \<and>
             \<not> checkCollision st
                 (x0 - of_bool f * s + of_bool b * s - of_bool l * c + of_bool r * c
                     - of_bool q * c + c)
                 (z0 - of_bool f * c + of_bool b * c + of_bool l * s - of_bool r * s
                     + of_bool q * s - s))"
  have x6: "player_x (playerRef (fst m6)) =
              x0 - of_bool f * s + of_bool b * s - of_bool l * c + of_bool r * c
                 - of_bool q * c + of_bool e * c"
    and z6: "player_y (playerRef (fst m6)) =
              z0 - of_bool f * c + of_bool b * c + of_bool l * s - of_bool r * s
                 + of_bool q * s - of_bool e * s"
    using step[OF e5, of "''KeyE'' \<in> keys \<and> \<not> locked" c "- s"]
    by (simp_all add: m6_def e_def x5 z5)
  have X: "player_x (playerRef (handleMovement st)) =
              x0 - of_bool f * s + of_bool b * s - of_bool l * c + of_bool r * c
                 - of_bool q * c + of_bool e * c"
    and Z: "player_y (playerRef (handleMovement st)) =
              z0 - of_bool f * c + of_bool b * c + of_bool l * s - of_bool r * s
                 + of_bool q * s - of_bool e * s"
    by (simp_all add: hm headBob_env x6 z6)
  show ?thesis
    apply (rule exI[of _ f], rule exI[of _ b], rule exI[of _ l], rule exI[of _ r],
           rule exI[of _ q], rule exI[of _ e])
    unfolding Let_def
    using f_def b_def l_def r_def q_def e_def ang X Z
    unfolding s_def c_def x0_def z0_def a_eq ms_def shift_def keys_def locked_def
    by (intro conjI) assumption+
qed


text \<open>
  C1, as the code has it. Each of the six translation blocks of \<^verbatim>\<open>handleMovement\<close>
  validates its candidate with one call of \<^verbatim>\<open>checkCollision\<close> on both coordinates
  and then writes both coordinates or neither. With \<open>a\<close> the player's angle after the
  turn keys, \<open>s = sin a * moveSpeed\<close> and \<open>c = cos a * moveSpeed\<close>, the blocks run in
  the order forward, back, strafe left, strafe right (pointer locked), strafe left,
  strafe right (pointer free); each block is accepted exactly when its key condition
  holds and \<^verbatim>\<open>checkCollision\<close> is false at its candidate, which is the position left by
  the blocks before it moved by the block's whole vector: \<open>(-s, -c)\<close>, \<open>(s, c)\<close>,
  \<open>(-c, s)\<close> or \<open>(c, -s)\<close>. The position after the frame is the start position plus
  the vectors of the accepted blocks, with one acceptance flag per block for both
  coordinates. Without a camera the frame changes nothing.
\<close>

theorem handleMovement_moves_by_whole_candidates:
  "(cameraRef st = None \<longrightarrow> handleMovement st = st) \<and>
   (cameraRef st = Some cam \<longrightarrow>
    (\<exists>f b l r q e.
    (let keys = keysRef st;
         locked = isLocked st;
         a = player_angle (playerRef st)
               - (if \<not> locked \<and> (''ArrowLeft'' \<in> keys \<or> ''KeyA'' \<in> keys) then 0.05 else 0)
               + (if \<not> locked \<and> (''ArrowRight'' \<in> keys \<or> ''KeyD'' \<in> keys) then 0.05 else 0);
         moveSpeed = 0.04 * (if ''ShiftLeft'' \<in> keys \<or> ''ShiftRight'' \<in> keys then 2 else 1);
         s = sin a * moveSpeed;
         c = cos a * moveSpeed;
         x0 = player_x (playerRef st);
         z0 = player_y (playerRef st)
     in f = ((''ArrowUp'' \<in> keys \<or> ''KeyW'' \<in> keys) \<and>
             \<not> checkCollision st (x0 - s) (z0 - c)) \<and>
        b = ((''ArrowDown'' \<in> keys \<or> ''KeyS'' \<in> keys) \<and>
             \<not> checkCollision st (x0 - of_bool f * s + s) (z0 - of_bool f * c + c)) \<and>
        l = ((''KeyA'' \<in> keys \<and> locked) \<and>
             \<not> checkCollision st (x0 - of_bool f * s + of_bool b * s - c)
                                  (z0 - of_bool f * c + of_bool b * c + s)) \<and>
        r = ((''KeyD'' \<in> keys \<and> locked) \<and>
             \<not> checkCollision st (x0 - of_bool f * s + of_bool b * s - of_bool l * c + c)
                                  (z0 - of_bool f * c + of_bool b * c + of_bool l * s - s)) \<and>
        q = ((''KeyQ'' \<in> keys \<and> \<not> locked) \<and>
             \<not> checkCollision st
                 (x0 - of_bool f * s + of_bool b * s - of_bool l * c + of_bool r * c - c)
                 (z0 - of_bool f * c + of_bool b * c + of_bool l * s - of_bool r * s + s)) \<and>
        e = ((''KeyE'' \<in> keys \<and> \<not> locked) \<and>
             \<not> checkCollision st
                 (x0 - of_bool f * s + of_bool b * s - of_bool l * c + of_bool r * c
                     - of_bool q * c + c)
                 (z0 - of_bool f * c + of_bool b * c + of_bool l * s - of_bool r * s
                     + of_bool q * s - s)) \<and>
        player_angle (playerRef (handleMovement st)) = a \<and>
        player_x (playerRef (handleMovement st)) =
          x0 - of_bool f * s + of_bool b * s - of_bool l * c + of_bool r * c
             - of_bool q * c + of_bool e * c \<and>
        player_y (playerRef (handleMovement st)) =
          z0 - of_bool f * c + of_bool b * c + of_bool l * s - of_bool r * s
             + of_bool q * s - of_bool e * s)))"
proof (intro conjI impI)
  assume "cameraRef st = None"
  then show "handleMovement st = st"
    by (simp add: handleMovement_def)
next
  assume "cameraRef st = Some cam"
  then show "\<exists>f b l r q e.
    (let keys = keysRef st;
         locked = isLocked st;
         a = player_angle (playerRef st)
               - (if \<not> locked \<and> (''ArrowLeft'' \<in> keys \<or> ''KeyA'' \<in> keys) then 0.05 else 0)
               + (if \<not> locked \<and> (''ArrowRight'' \<in> keys \<or> ''KeyD'' \<in> keys) then 0.05 else 0);
         moveSpeed = 0.04 * (if ''ShiftLeft'' \<in> keys \<or> ''ShiftRight'' \<in> keys then 2 else 1);
         s = sin a * moveSpeed;
         c = cos a * moveSpeed;
         x0 = player_x (playerRef st);
         z0 = player_y (playerRef st)
     in f = ((''ArrowUp'' \<in> keys \<or> ''KeyW'' \<in> keys) \<and>
             \<not> checkCollision st (x0 - s) (z0 - c)) \<and>
        b = ((''ArrowDown'' \<in> keys \<or> ''KeyS'' \<in> keys) \<and>
             \<not> checkCollision st (x0 - of_bool f * s + s) (z0 - of_bool f * c + c)) \<and>
        l = ((''KeyA'' \<in> keys \<and> locked) \<and>
             \<not> checkCollision st (x0 - of_bool f * s + of_bool b * s - c)
                                  (z0 - of_bool f * c + of_bool b * c + s)) \<and>
        r = ((''KeyD'' \<in> keys \<and> locked) \<and>
             \<not> checkCollision st (x0 - of_bool f * s + of_bool b * s - of_bool l * c + c)
                                  (z0 - of_bool f * c + of_bool b * c + of_bool l * s - s)) \<and>
        q = ((''KeyQ'' \<in> keys \<and> \<not> locked) \<and>
             \<not> checkCollision st
                 (x0 - of_bool f * s + of_bool b * s - of_bool l * c + of_bool r * c - c)
                 (z0 - of_bool f * c + of_bool b * c + of_bool l * s - of_bool r * s + s)) \<and>
        e = ((''KeyE'' \<in> keys \<and> \<not> locked) \<and>
             \<not> checkCollision st
                 (x0 - of_bool f * s + of_bool b * s - of_bool l * c + of_bool r * c
                     - of_bool q * c + c)
                 (z0 - of_bool f * c + of_bool b * c + of_bool l * s - of_bool r * s
                     + of_bool q * s - s)) \<and>
        player_angle (playerRef (handleMovement st)) = a \<and>
        player_x (playerRef (handleMovement st)) =
          x0 - of_bool f * s + of_bool b * s - of_bool l * c + of_bool r * c
             - of_bool q * c + of_bool e * c \<and>
        player_y (playerRef (handleMovement st)) =
          z0 - of_bool f * c + of_bool b * c + of_bool l * s - of_bool r * s
             + of_bool q * s - of_bool e * s)"
    by (rule handleMovement_blocks)
qed

theorem handleMovement_moves_by_whole_candidates_witness:
  "cameraRef slideScene = Some slideCamera \<and>
   player_x (playerRef (handleMovement slideScene)) = 0 \<and>
   player_y (playerRef (handleMovement slideScene)) = 0 \<and>
   player_angle (playerRef (handleMovement slideScene)) = arctan (3/4)"
proof -
  have cam: "cameraRef slideScene = Some slideCamera"
    by (simp add: slideScene_def)
  have blocked: "checkCollision slideScene (- (3 / 125)) (- (4 / 125))"
    by (simp add: checkCollision_def slideScene_def playerBox_def intersectsBox_def)
  have scene: "keysRef slideScene = {''KeyW''}" "\<not> isLocked slideScene"
    "player_x (playerRef slideScene) = 0" "player_y (playerRef slideScene) = 0"
    "player_angle (playerRef slideScene) = arctan (3/4)"
    by (simp_all add: slideScene_def)
  have "player_x (playerRef (handleMovement slideScene)) = 0 \<and>
        player_y (playerRef (handleMovement slideScene)) = 0 \<and>
        player_angle (playerRef (handleMovement slideScene)) = arctan (3/4)"
    using mp[OF conjunct2[OF handleMovement_moves_by_whole_candidates
                               [where st = slideScene and cam = slideCamera]] cam] blocked
    unfolding Let_def
    by (auto simp add: scene sin_arctan_3_4 cos_arctan_3_4)
  with cam show ?thesis by simp
qed

text \<open>
  In the example scene the forward candidate \<open>(-0.024, -0.032)\<close> is blocked by the wall
  and the candidate that keeps \<open>x\<close> and moves only along \<open>z\<close> is free, yet the frame
  leaves both coordinates of the player unchanged: the motion along \<open>z\<close> is not applied.
\<close>

theorem slide_counterexample:
  "sin (player_angle (playerRef slideScene)) * 0.04 = 0.024 \<and>
   cos (player_angle (playerRef slideScene)) * 0.04 = 0.032 \<and>
   checkCollision slideScene (0 - 0.024) (0 - 0.032) \<and>
   \<not> checkCollision slideScene 0 (0 - 0.032) \<and>
   player_x (playerRef (handleMovement slideScene)) = 0 \<and>
   player_y (playerRef (handleMovement slideScene)) = 0"
proof -
  have blocked: "checkCollision slideScene (- 0.024) (- 0.032)"
    by (simp add: checkCollision_def slideScene_def playerBox_def intersectsBox_def)
  have free: "\<not> checkCollision slideScene 0 (- 0.032)"
    by (simp add: checkCollision_def slideScene_def playerBox_def intersectsBox_def)
  have pose: "player_x (playerRef slideScene) = 0" "player_y (playerRef slideScene) = 0"
    "player_angle (playerRef slideScene) = arctan (3/4)"
    by (simp_all add: slideScene_def)
  have sc: "sin (arctan (3/4)) * 0.04 = (0.024 :: real)" "cos (arctan (3/4)) * 0.04 = (0.032 :: real)"
    by (simp_all add: sin_arctan_3_4 cos_arctan_3_4)
  have "playerRef (handleMovement slideScene) =
        playerRef (fst (tryMove True (- (sin (player_angle (playerRef slideScene)) * 0.04))
                          (- (cos (player_angle (playerRef slideScene)) * 0.04)) (slideScene, False)))"
    by (rule handleMovement_only_KeyW[of _ slideCamera]) (simp_all add: slideScene_def)
  also have "\<dots> = playerRef (fst (tryMove True (- 0.024) (- 0.032) (slideScene, False)))"
    by (simp only: pose sc)
  also have "tryMove True (- 0.024) (- 0.032) (slideScene, False) = (slideScene, False)"
    by (rule tryMove_blocked) (simp only: pose add_0 blocked)
  finally have "playerRef (handleMovement slideScene) = playerRef slideScene"
    by simp
  then show ?thesis
    using blocked free by (simp add: pose sin_arctan_3_4 cos_arctan_3_4)
qed

section \<open>Properties of the projectile system\<close>

lemma scanCreatures_None:
  "scanCreatures b cs n = None \<longleftrightarrow> (\<forall>j<n. \<not> intersectsBox b (collisionBox (cs ! j)))"
  by (induction n) (auto simp: less_Suc_eq)

lemma scanCreatures_Some:
  "scanCreatures b cs n = Some i \<longleftrightarrow>
     i < n \<and> intersectsBox b (collisionBox (cs ! i)) \<and>
     (\<forall>j. i < j \<and> j < n \<longrightarrow> \<not> intersectsBox b (collisionBox (cs ! j)))"
proof (induction n)
  case 0
  show ?case by simp
next
  case (Suc n)
  show ?case
  proof (cases "intersectsBox b (collisionBox (cs ! n))")
    case True
    then show ?thesis
      by (auto simp: less_Suc_eq)
  next
    case False
    then show ?thesis
      using Suc.IH by (auto simp: less_Suc_eq)
  qed
qed

lemma scanCreatures_None_set:
  "scanCreatures b cs (length cs) = None \<longleftrightarrow> (\<forall>c\<in>set cs. \<not> intersectsBox b (collisionBox c))"
  by (simp add: scanCreatures_None all_set_conv_all_nth)

lemma projectileStep_creatures:
  "(case projectileStep f p st of (keep, (hitWall, hitCreature), p', st') \<Rightarrow>
     (\<not> hitCreature \<and> creaturesRef st' = creaturesRef st \<and> cleanupQueueRef st' = cleanupQueueRef st \<and>
      (\<forall>c\<in>set (creaturesRef st). \<not> intersectsBox (f (mesh (advance p))) (collisionBox c))) \<or>
     (hitCreature \<and>
      (\<exists>i<length (creaturesRef st).
          intersectsBox (f (mesh (advance p))) (collisionBox (creaturesRef st ! i)) \<and>
          (\<forall>j. i < j \<and> j < length (creaturesRef st) \<longrightarrow>
               \<not> intersectsBox (f (mesh (advance p))) (collisionBox (creaturesRef st ! j))) \<and>
          creaturesRef st' = take i (creaturesRef st) @ drop (Suc i) (creaturesRef st) \<and>
          cleanupQueueRef st' = cleanupQueueRef st @ [cleanupBundle (creaturesRef st ! i)])))"
proof (cases "scanCreatures (f (mesh (advance p))) (creaturesRef st) (length (creaturesRef st))")
  case None
  then show ?thesis
    using scanCreatures_None_set[of "f (mesh (advance p))" "creaturesRef st"]
    by (simp add: projectileStep_def Let_def)
next
  case (Some i)
  then show ?thesis
    using scanCreatures_Some[of "f (mesh (advance p))" "creaturesRef st" "length (creaturesRef st)" i]
    by (auto simp add: projectileStep_def Let_def splice1_def intro!: exI[of _ i])
qed

lemma projectileStep_counts:
  assumes "projectileStep f p st = (keep, flags, p', st')"
  shows "length (creaturesRef st) \<le> length (creaturesRef st') + 1 \<and>
         length (cleanupQueueRef st') + length (creaturesRef st') =
           length (cleanupQueueRef st) + length (creaturesRef st)"
proof (cases "scanCreatures (f (mesh (advance p))) (creaturesRef st) (length (creaturesRef st))")
  case None
  then show ?thesis using assms
    by (auto simp add: projectileStep_def Let_def split: if_splits)
next
  case (Some i)
  then have "i < length (creaturesRef st)" by (simp add: scanCreatures_Some)
  then show ?thesis using assms Some
    by (auto simp add: projectileStep_def Let_def splice1_def split: if_splits)
qed

lemma filterProjectiles_counts:
  assumes "filterProjectiles f ps st = (kept, st')"
  shows "length (creaturesRef st) \<le> length (creaturesRef st') + length ps \<and>
         length (cleanupQueueRef st') + length (creaturesRef st') =
           length (cleanupQueueRef st) + length (creaturesRef st)"
  using assms
proof (induction ps arbitrary: st kept st')
  case Nil
  then show ?case by simp
next
  case (Cons p ps)
  obtain keep flags p1 st1 where s1: "projectileStep f p st = (keep, flags, p1, st1)"
    by (metis prod_cases4)
  obtain kept2 st2 where s2: "filterProjectiles f ps st1 = (kept2, st2)"
    by (metis surj_pair)
  have st': "st' = st2" using Cons.prems s1 s2 by simp
  from projectileStep_counts[OF s1] Cons.IH[OF s2] show ?case
    unfolding st' by simp
qed

lemma updateProjectiles_counts:
  "length (creaturesRef st) \<le> length (creaturesRef (updateProjectiles f st)) + length (projectilesRef st) \<and>
   length (cleanupQueueRef (updateProjectiles f st)) + length (creaturesRef (updateProjectiles f st)) =
     length (cleanupQueueRef st) + length (creaturesRef st)"
proof (cases "sceneRef st")
  case False
  then show ?thesis by (simp add: updateProjectiles_def)
next
  case True
  obtain kept st1 where s: "filterProjectiles f (projectilesRef st) st = (kept, st1)"
    by (metis surj_pair)
  from filterProjectiles_counts[OF s] show ?thesis
    using True s by (simp add: updateProjectiles_def)
qed



lemma projectileStep_keep:
  "fst (projectileStep f p st) = False \<longleftrightarrow>
     (\<exists>w\<in>set (wallsRef st). intersectsBox (f (mesh (advance p))) w) \<or>
     (\<exists>c\<in>set (creaturesRef st). intersectsBox (f (mesh (advance p))) (collisionBox c)) \<or>
     life p - 1 \<le> 0"
proof -
  have "(scanCreatures (f (mesh (advance p))) (creaturesRef st) (length (creaturesRef st)) \<noteq> None) =
        (\<exists>c\<in>set (creaturesRef st). intersectsBox (f (mesh (advance p))) (collisionBox c))"
    by (simp add: scanCreatures_None_set)
  then show ?thesis
    by (simp add: projectileStep_def Let_def anyIntersects_iff advance_def)
qed

lemma projectileStep_flags:
  "fst (snd (projectileStep f p st)) =
     ((\<exists>w\<in>set (wallsRef st). intersectsBox (f (mesh (advance p))) w),
      (\<exists>c\<in>set (creaturesRef st). intersectsBox (f (mesh (advance p))) (collisionBox c)))"
proof -
  have "(scanCreatures (f (mesh (advance p))) (creaturesRef st) (length (creaturesRef st)) \<noteq> None) =
        (\<exists>c\<in>set (creaturesRef st). intersectsBox (f (mesh (advance p))) (collisionBox c))"
    by (simp add: scanCreatures_None_set)
  then show ?thesis
    by (simp add: projectileStep_def Let_def anyIntersects_iff)
qed

lemma projectileStep_projectile:
  "fst (snd (snd (projectileStep f p st))) = advance p"
  by (simp add: projectileStep_def Let_def)

lemma projectileStep_disposed:
  "disposed (snd (snd (snd (projectileStep f p st)))) =
     disposed st @ (if fst (projectileStep f p st) then [] else disposeMesh (mesh p))"
  by (simp add: projectileStep_def Let_def advance_def disposeMesh_def split: option.splits)

lemma projectileStep_env:
  "wallsRef (snd (snd (snd (projectileStep f p st)))) = wallsRef st"
  "sceneRef (snd (snd (snd (projectileStep f p st)))) = sceneRef st"
  by (simp_all add: projectileStep_def Let_def split: option.splits)

lemma updateProjectiles_single:
  assumes "sceneRef st" and "projectilesRef st = [p]"
  shows "projectilesRef (updateProjectiles f st) =
           (if fst (projectileStep f p st) then [advance p] else [])"
proof -
  obtain keep flags p1 st1 where s: "projectileStep f p st = (keep, flags, p1, st1)"
    by (metis prod_cases4)
  have "p1 = advance p" using projectileStep_projectile[of f p st] s by simp
  then show ?thesis
    using assms s by (simp add: updateProjectiles_def)
qed

lemma shoot_projectile:
  assumes "sceneRef st" and "cameraRef st = Some cam"
  shows "\<exists>bolt. projectilesRef (shoot d st) = projectilesRef st @ [bolt] \<and> life bolt = 100 \<and>
           velocity bolt = multiplyScalar d 0.8"
  using assms by (simp add: shoot_def Let_def)

lemma life_advance: "life ((advance ^^ k) p) = life p - int k"
  by (induction k) (simp_all add: advance_def)

lemma bolt_flight:
  assumes scene: "\<forall>k. sceneRef (m k)"
    and start: "projectilesRef (m 0) = [bolt]" "life bolt = 100"
    and frames: "\<forall>k. projectilesRef (m (Suc k)) = projectilesRef (updateProjectiles f (m k))"
    and clear: "\<forall>k<100.
        (\<forall>w\<in>set (wallsRef (m k)). \<not> intersectsBox (f (mesh ((advance ^^ Suc k) bolt))) w) \<and>
        (\<forall>c\<in>set (creaturesRef (m k)).
            \<not> intersectsBox (f (mesh ((advance ^^ Suc k) bolt))) (collisionBox c))"
  shows "k < 100 \<Longrightarrow> projectilesRef (m k) = [(advance ^^ k) bolt]"
proof (induction k)
  case 0
  show ?case by (simp add: start)
next
  case (Suc k)
  then have k: "k < 100" and cur: "projectilesRef (m k) = [(advance ^^ k) bolt]" by simp_all
  have "fst (projectileStep f ((advance ^^ k) bolt) (m k))"
    using projectileStep_keep[of f "(advance ^^ k) bolt" "m k"] clear k Suc.prems
    by (simp add: life_advance start)
  then have "projectilesRef (updateProjectiles f (m k)) = [(advance ^^ Suc k) bolt]"
    using updateProjectiles_single[of "m k" "(advance ^^ k) bolt" f] scene cur by simp
  then show ?case using frames by simp
qed

lemma bolt_retired:
  assumes scene: "\<forall>k. sceneRef (m k)"
    and start: "projectilesRef (m 0) = [bolt]" "life bolt = 100"
    and frames: "\<forall>k. projectilesRef (m (Suc k)) = projectilesRef (updateProjectiles f (m k))"
    and clear: "\<forall>k<100.
        (\<forall>w\<in>set (wallsRef (m k)). \<not> intersectsBox (f (mesh ((advance ^^ Suc k) bolt))) w) \<and>
        (\<forall>c\<in>set (creaturesRef (m k)).
            \<not> intersectsBox (f (mesh ((advance ^^ Suc k) bolt))) (collisionBox c))"
  shows "projectilesRef (updateProjectiles f (m 99)) = []"
proof -
  have cur: "projectilesRef (m 99) = [(advance ^^ 99) bolt]"
    using bolt_flight[OF assms, of 99] by simp
  have "\<not> fst (projectileStep f ((advance ^^ 99) bolt) (m 99))"
    using projectileStep_keep[of f "(advance ^^ 99) bolt" "m 99"]
    by (simp add: life_advance start)
  then show ?thesis
    using updateProjectiles_single[of "m 99" "(advance ^^ 99) bolt" f] scene cur by simp
qed

lemma bolt_flags:
  assumes scene: "\<forall>k. sceneRef (m k)"
    and start: "projectilesRef (m 0) = [bolt]" "life bolt = 100"
    and frames: "\<forall>k. projectilesRef (m (Suc k)) = projectilesRef (updateProjectiles f (m k))"
    and clear: "\<forall>k<100.
        (\<forall>w\<in>set (wallsRef (m k)). \<not> intersectsBox (f (mesh ((advance ^^ Suc k) bolt))) w) \<and>
        (\<forall>c\<in>set (creaturesRef (m k)).
            \<not> intersectsBox (f (mesh ((advance ^^ Suc k) bolt))) (collisionBox c))"
  shows "k < 100 \<Longrightarrow> fst (snd (projectileStep f ((advance ^^ k) bolt) (m k))) = (False, False)"
  using clear by (simp add: projectileStep_flags)

lemma projectileStep_subset:
  "set (creaturesRef (snd (snd (snd (projectileStep f p st))))) \<subseteq> set (creaturesRef st)"
proof (cases "scanCreatures (f (mesh (advance p))) (creaturesRef st) (length (creaturesRef st))")
  case None
  then show ?thesis by (simp add: projectileStep_def Let_def)
next
  case (Some i)
  have "set (take i (creaturesRef st)) \<subseteq> set (creaturesRef st)"
       "set (drop (Suc i) (creaturesRef st)) \<subseteq> set (creaturesRef st)"
    by (rule set_take_subset, rule set_drop_subset)
  then show ?thesis using Some
    by (simp add: projectileStep_def Let_def splice1_def)
qed

lemma filterProjectiles_env:
  assumes "filterProjectiles f ps st = (kept, st')"
  shows "wallsRef st' = wallsRef st \<and> sceneRef st' = sceneRef st \<and>
         set (creaturesRef st') \<subseteq> set (creaturesRef st)"
  using assms
proof (induction ps arbitrary: st kept st')
  case Nil
  then show ?case by simp
next
  case (Cons p ps)
  obtain keep flags p1 st1 where s1: "projectileStep f p st = (keep, flags, p1, st1)"
    by (metis prod_cases4)
  obtain kept2 st2 where s2: "filterProjectiles f ps st1 = (kept2, st2)"
    by (metis surj_pair)
  have st': "st' = st2" using Cons.prems s1 s2 by simp
  have "wallsRef st1 = wallsRef st" "sceneRef st1 = sceneRef st"
       "set (creaturesRef st1) \<subseteq> set (creaturesRef st)"
    using projectileStep_env[of f p st] projectileStep_subset[of f p st] s1 by simp_all
  with Cons.IH[OF s2] show ?case unfolding st' by auto
qed

lemma updateProjectiles_env:
  "wallsRef (updateProjectiles f st) = wallsRef st \<and>
   sceneRef (updateProjectiles f st) = sceneRef st \<and>
   set (creaturesRef (updateProjectiles f st)) \<subseteq> set (creaturesRef st)"
proof (cases "sceneRef st")
  case False
  then show ?thesis by (simp add: updateProjectiles_def)
next
  case True
  obtain kept st1 where s: "filterProjectiles f (projectilesRef st) st = (kept, st1)"
    by (metis surj_pair)
  from filterProjectiles_env[OF s] show ?thesis
    using True s by (simp add: updateProjectiles_def)
qed

lemma updateProjectiles_iterated_env:
  "sceneRef ((updateProjectiles f ^^ k) st) = sceneRef st \<and>
   wallsRef ((updateProjectiles f ^^ k) st) = wallsRef st \<and>
   set (creaturesRef ((updateProjectiles f ^^ k) st)) \<subseteq> set (creaturesRef st)"
proof (induction k)
  case 0
  show ?case by simp
next
  case (Suc k)
  then show ?case
    using updateProjectiles_env[of f "(updateProjectiles f ^^ k) st"] by auto
qed

text \<open>
  C5. The callback for one projectile either removes no creature and leaves the cleanup
  queue as it is, in which case no creature's box intersects the projectile's box; or
  it removes exactly one creature, the one with the greatest index among those whose box
  intersects the projectile's box, and appends that creature's bundle to the cleanup
  queue. Over a whole call of \<^verbatim>\<open>updateProjectiles\<close> the pool shrinks by at most the
  number of projectiles.
\<close>

theorem projectile_removes_at_most_one_creature:
  "(case projectileStep f p st of (keep, (hitWall, hitCreature), p', st') \<Rightarrow>
     (\<not> hitCreature \<and> creaturesRef st' = creaturesRef st \<and> cleanupQueueRef st' = cleanupQueueRef st \<and>
      (\<forall>c\<in>set (creaturesRef st). \<not> intersectsBox (f (mesh (advance p))) (collisionBox c))) \<or>
     (hitCreature \<and>
      (\<exists>i<length (creaturesRef st).
          intersectsBox (f (mesh (advance p))) (collisionBox (creaturesRef st ! i)) \<and>
          (\<forall>j. i < j \<and> j < length (creaturesRef st) \<longrightarrow>
               \<not> intersectsBox (f (mesh (advance p))) (collisionBox (creaturesRef st ! j))) \<and>
          creaturesRef st' = take i (creaturesRef st) @ drop (Suc i) (creaturesRef st) \<and>
          cleanupQueueRef st' = cleanupQueueRef st @ [cleanupBundle (creaturesRef st ! i)]))) \<and>
   length (creaturesRef st) \<le>
     length (creaturesRef (updateProjectiles f st)) + length (projectilesRef st)"
  using projectileStep_creatures[where f=f and p=p and st=st] updateProjectiles_counts[where f=f and st=st] by simp

lemma hitScene_parts:
  "sceneRef hitScene"
  "wallsRef hitScene = []"
  "cleanupQueueRef hitScene = []"
  "disposed hitScene = []"
  "creaturesRef hitScene =
     creaturesRef (spawnCreature (0, - 1) (spawnCreature (0, - 0.8) openScene))"
  "projectilesRef hitScene =
     [\<lparr>mesh = \<lparr>position = \<lparr>vx = 0, vy = 1.4, vz = 0\<rparr>, geometry = 10, material = Single 11,
                children = [\<lparr>child_geometry = 12, child_material = Single 13\<rparr>]\<rparr>,
       velocity = \<lparr>vx = 0, vy = 0, vz = - 0.8\<rparr>, life = 100\<rparr>]"
  by (simp_all add: hitScene_def shoot_def spawnCreature_def openScene_def Let_def multiplyScalar_def)

lemma hitScene_update:
  "creaturesRef (updateProjectiles boltBox hitScene) = [creaturesRef hitScene ! 0] \<and>
   cleanupQueueRef (updateProjectiles boltBox hitScene) = [cleanupBundle (creaturesRef hitScene ! 1)] \<and>
   projectilesRef (updateProjectiles boltBox hitScene) = [] \<and>
   disposed (updateProjectiles boltBox hitScene) = [Geometry 10, Material 11]"
  by (simp add: updateProjectiles_def hitScene_def shoot_def spawnCreature_def openScene_def Let_def
      multiplyScalar_def projectileStep_def advance_def add_def boltBox_def intersectsBox_def
      numeral_2_eq_2 splice1_def cleanupBundle_def disposeMesh_def)

theorem projectile_removes_at_most_one_creature_witness:
  "length (creaturesRef hitScene) = 2 \<and> length (projectilesRef hitScene) = 1 \<and>
   intersectsBox (boltBox (mesh (advance (projectilesRef hitScene ! 0))))
     (collisionBox (creaturesRef hitScene ! 0)) \<and>
   intersectsBox (boltBox (mesh (advance (projectilesRef hitScene ! 0))))
     (collisionBox (creaturesRef hitScene ! 1)) \<and>
   creaturesRef (updateProjectiles boltBox hitScene) = [creaturesRef hitScene ! 0] \<and>
   length (creaturesRef hitScene) \<le>
     length (creaturesRef (updateProjectiles boltBox hitScene)) + length (projectilesRef hitScene)"
proof -
  have "length (creaturesRef hitScene) \<le>
     length (creaturesRef (updateProjectiles boltBox hitScene)) + length (projectilesRef hitScene)"
    using projectile_removes_at_most_one_creature [where f = boltBox and st = hitScene]
    by (rule conjunct2)
  moreover have "length (creaturesRef hitScene) = 2 \<and> length (projectilesRef hitScene) = 1 \<and>
   intersectsBox (boltBox (mesh (advance (projectilesRef hitScene ! 0))))
     (collisionBox (creaturesRef hitScene ! 0)) \<and>
   intersectsBox (boltBox (mesh (advance (projectilesRef hitScene ! 0))))
     (collisionBox (creaturesRef hitScene ! 1))"
    by (simp add: hitScene_parts spawnCreature_def openScene_def Let_def advance_def add_def
        boltBox_def intersectsBox_def)
  ultimately show ?thesis
    using hitScene_update by simp
qed

text \<open>
  Retirement of a projectile. In the callback for one projectile, with \<open>B\<close> the box
  of the projectile after its
  position has been advanced: the projectile is dropped from the list exactly when \<open>B\<close>
  intersects a wall box, or \<open>B\<close> intersects the box of a creature in the pool, or its
  life after the decrement is at most \<open>0\<close>; the two flags \<open>hitWall\<close> and \<open>hitCreature\<close>
  are exactly the first two conditions; and a dropped projectile's geometry and material
  are disposed in the same call, a kept one's are not.

  A shot appends a projectile with life \<open>100\<close> and velocity \<open>0.8\<close> times the shooting
  direction. Let \<open>m k\<close> be the state in which \<^verbatim>\<open>updateProjectiles\<close> is called for the
  \<open>(k+1)\<close>-th time after the shot, so that between two calls the rest of the program may
  change anything but the projectile list. If that projectile is the only one and its box
  meets no wall and no creature in any of its first \<open>100\<close> updates, then it is still in
  the list, advanced \<open>k\<close> times, before update \<open>k + 1\<close> for every \<open>k < 100\<close>, both flags
  are false in each of these updates, and the 100th update removes it.
\<close>

theorem projectile_retired_iff:
  "(fst (projectileStep f p st) = False) =
     ((\<exists>w\<in>set (wallsRef st). intersectsBox (f (mesh (advance p))) w) \<or>
      (\<exists>c\<in>set (creaturesRef st). intersectsBox (f (mesh (advance p))) (collisionBox c)) \<or>
      life p - 1 \<le> 0) \<and>
   fst (snd (projectileStep f p st)) =
     ((\<exists>w\<in>set (wallsRef st). intersectsBox (f (mesh (advance p))) w),
      (\<exists>c\<in>set (creaturesRef st). intersectsBox (f (mesh (advance p))) (collisionBox c))) \<and>
   disposed (snd (snd (snd (projectileStep f p st)))) =
     disposed st @ (if fst (projectileStep f p st) then [] else disposeMesh (mesh p)) \<and>
   (sceneRef st \<and> projectilesRef st = [p] \<longrightarrow>
      projectilesRef (updateProjectiles f st) =
        (if fst (projectileStep f p st) then [advance p] else [])) \<and>
   (sceneRef st0 \<and> cameraRef st0 = Some cam \<longrightarrow>
      (\<exists>bolt. projectilesRef (shoot d st0) = projectilesRef st0 @ [bolt] \<and> life bolt = 100 \<and>
          velocity bolt = multiplyScalar d 0.8)) \<and>
   ((\<forall>k. sceneRef (m k)) \<and> projectilesRef (m 0) = [bolt] \<and> life bolt = 100 \<and>
    (\<forall>k. projectilesRef (m (Suc k)) = projectilesRef (updateProjectiles f (m k))) \<and>
    (\<forall>k<100.
        (\<forall>w\<in>set (wallsRef (m k)). \<not> intersectsBox (f (mesh ((advance ^^ Suc k) bolt))) w) \<and>
        (\<forall>c\<in>set (creaturesRef (m k)).
            \<not> intersectsBox (f (mesh ((advance ^^ Suc k) bolt))) (collisionBox c))) \<longrightarrow>
    (\<forall>k<100. projectilesRef (m k) = [(advance ^^ k) bolt] \<and>
             fst (snd (projectileStep f ((advance ^^ k) bolt) (m k))) = (False, False)) \<and>
    projectilesRef (updateProjectiles f (m 99)) = [])"
proof (intro conjI impI)
  show "(fst (projectileStep f p st) = False) =
     ((\<exists>w\<in>set (wallsRef st). intersectsBox (f (mesh (advance p))) w) \<or>
      (\<exists>c\<in>set (creaturesRef st). intersectsBox (f (mesh (advance p))) (collisionBox c)) \<or>
      life p - 1 \<le> 0)"
    by (rule projectileStep_keep)
  show "fst (snd (projectileStep f p st)) =
     ((\<exists>w\<in>set (wallsRef st). intersectsBox (f (mesh (advance p))) w),
      (\<exists>c\<in>set (creaturesRef st). intersectsBox (f (mesh (advance p))) (collisionBox c)))"
    by (rule projectileStep_flags)
  show "disposed (snd (snd (snd (projectileStep f p st)))) =
     disposed st @ (if fst (projectileStep f p st) then [] else disposeMesh (mesh p))"
    by (rule projectileStep_disposed)
next
  assume "sceneRef st \<and> projectilesRef st = [p]"
  then show "projectilesRef (updateProjectiles f st) =
        (if fst (projectileStep f p st) then [advance p] else [])"
    by (simp add: updateProjectiles_single)
next
  assume "sceneRef st0 \<and> cameraRef st0 = Some cam"
  then show "\<exists>bolt. projectilesRef (shoot d st0) = projectilesRef st0 @ [bolt] \<and> life bolt = 100 \<and>
          velocity bolt = multiplyScalar d 0.8"
    using shoot_projectile[of st0 cam d] by simp
next
  assume h: "(\<forall>k. sceneRef (m k)) \<and> projectilesRef (m 0) = [bolt] \<and> life bolt = 100 \<and>
    (\<forall>k. projectilesRef (m (Suc k)) = projectilesRef (updateProjectiles f (m k))) \<and>
    (\<forall>k<100.
        (\<forall>w\<in>set (wallsRef (m k)). \<not> intersectsBox (f (mesh ((advance ^^ Suc k) bolt))) w) \<and>
        (\<forall>c\<in>set (creaturesRef (m k)).
            \<not> intersectsBox (f (mesh ((advance ^^ Suc k) bolt))) (collisionBox c)))"
  then have scene: "\<forall>k. sceneRef (m k)"
    and start: "projectilesRef (m 0) = [bolt]" "life bolt = 100"
    and frames: "\<forall>k. projectilesRef (m (Suc k)) = projectilesRef (updateProjectiles f (m k))"
    and clear: "\<forall>k<100.
        (\<forall>w\<in>set (wallsRef (m k)). \<not> intersectsBox (f (mesh ((advance ^^ Suc k) bolt))) w) \<and>
        (\<forall>c\<in>set (creaturesRef (m k)).
            \<not> intersectsBox (f (mesh ((advance ^^ Suc k) bolt))) (collisionBox c))"
    by blast+
  show "\<forall>k<100. projectilesRef (m k) = [(advance ^^ k) bolt] \<and>
             fst (snd (projectileStep f ((advance ^^ k) bolt) (m k))) = (False, False)"
    using bolt_flight[OF scene start frames clear] bolt_flags[OF scene start frames clear]
    by blast
  show "projectilesRef (updateProjectiles f (m 99)) = []"
    by (rule bolt_retired[OF scene start frames clear])
qed

theorem projectile_retired_iff_witness:
  "projectilesRef flightScene =
     [\<lparr>mesh = \<lparr>position = \<lparr>vx = 0, vy = 1.4, vz = 0\<rparr>, geometry = 0, material = Single 1,
                children = [\<lparr>child_geometry = 2, child_material = Single 3\<rparr>]\<rparr>,
       velocity = \<lparr>vx = 0, vy = 0, vz = - 0.8\<rparr>, life = 100\<rparr>] \<and>
   projectilesRef ((updateProjectiles boltBox ^^ 99) flightScene) \<noteq> [] \<and>
   projectilesRef ((updateProjectiles boltBox ^^ 100) flightScene) = []"
proof -
  define m where "m k = (updateProjectiles boltBox ^^ k) flightScene" for k
  define bolt where "bolt = \<lparr>mesh = \<lparr>position = \<lparr>vx = 0, vy = 1.4, vz = 0\<rparr>, geometry = 0,
                                     material = Single 1,
                                     children = [\<lparr>child_geometry = 2, child_material = Single 3\<rparr>]\<rparr>,
                             velocity = \<lparr>vx = 0, vy = 0, vz = - 0.8\<rparr>, life = 100\<rparr>"
  have fs: "sceneRef flightScene" "wallsRef flightScene = []" "creaturesRef flightScene = []"
    "projectilesRef flightScene = [bolt]"
    by (simp_all add: flightScene_def shoot_def openScene_def Let_def multiplyScalar_def bolt_def)
  have scene: "\<forall>k. sceneRef (m k)"
    using updateProjectiles_iterated_env[where f=boltBox and st=flightScene] by (simp add: m_def fs)
  have empty: "wallsRef (m k) = [] \<and> creaturesRef (m k) = []" for k
    using updateProjectiles_iterated_env[where f=boltBox and st=flightScene and k=k]
    by (simp add: m_def fs)
  have start: "projectilesRef (m 0) = [bolt]" "life bolt = 100"
    by (simp_all add: m_def fs bolt_def)
  have frames: "\<forall>k. projectilesRef (m (Suc k)) = projectilesRef (updateProjectiles boltBox (m k))"
    by (simp add: m_def)
  have clear: "\<forall>k<100.
        (\<forall>w\<in>set (wallsRef (m k)). \<not> intersectsBox (boltBox (mesh ((advance ^^ Suc k) bolt))) w) \<and>
        (\<forall>c\<in>set (creaturesRef (m k)).
            \<not> intersectsBox (boltBox (mesh ((advance ^^ Suc k) bolt))) (collisionBox c))"
    using empty by simp
  have flight: "(\<forall>k<100. projectilesRef (m k) = [(advance ^^ k) bolt] \<and>
             fst (snd (projectileStep boltBox ((advance ^^ k) bolt) (m k))) = (False, False)) \<and>
    projectilesRef (updateProjectiles boltBox (m 99)) = []"
    using projectile_retired_iff [where f = boltBox and m = m and bolt = bolt]
      scene start frames clear by blast
  then have "projectilesRef (m 99) = [(advance ^^ 99) bolt]"
    by simp
  moreover have "(updateProjectiles boltBox ^^ 100) flightScene = updateProjectiles boltBox (m 99)"
  proof -
    have "(100::nat) = Suc 99" by simp
    then show ?thesis unfolding m_def by (simp only: funpow.simps o_apply)
  qed
  ultimately show ?thesis using flight by (simp add: m_def fs bolt_def)
qed

section \<open>More properties of the cleanup queue\<close>

lemma processCleanupQueue_disposed_passes:
  "disposed ((processCleanupQueue ^^ n) st) =
     disposed st @ concat (map disposeItem (take (2 * n) (cleanupQueueRef st)))"
proof (induction n)
  case 0
  show ?case by simp
next
  case (Suc n)
  have "take (2 * Suc n) (cleanupQueueRef st) =
          take (2 * n) (cleanupQueueRef st) @ take 2 (drop (2 * n) (cleanupQueueRef st))"
    using take_add[of "2 * n" 2 "cleanupQueueRef st"] by (simp add: add.commute)
  then show ?case
    by (simp add: processCleanupQueue_disposed processCleanupQueue_passes Suc.IH)
qed

lemma disposeMesh_set:
  "set (disposeMesh m) =
     {Geometry (geometry m)} \<union>
     Material ` (case material m of Single mat \<Rightarrow> {mat} | Multi mats \<Rightarrow> set mats)"
  by (simp add: disposeMesh_def split: materials.splits)

lemma disposeMesh_no_light: "PointLight k \<notin> set (disposeMesh m)"
  by (auto simp add: disposeMesh_set)

lemma disposeItem_no_light: "PointLight k \<notin> set (disposeItem item)"
  by (simp add: disposeItem_def disposeMesh_no_light)

text \<open>
  C9. After \<open>n\<close> cleanup passes the disposal log has grown by the disposals of the first
  \<open>2 n\<close> queue entries. For one entry these are the geometry and the material, or all
  materials of the array, of the body, the left eye and the right eye, and nothing else:
  no point light is among them, although the bundle that is enqueued for a creature
  carries the creature's light.
\<close>

theorem cleanup_never_disposes_light:
  "disposed ((processCleanupQueue ^^ n) st) =
     disposed st @ concat (map disposeItem (take (2 * n) (cleanupQueueRef st))) \<and>
   set (disposeItem item) =
     set (disposeMesh (body item)) \<union> set (disposeMesh (leftEye item)) \<union>
     set (disposeMesh (rightEye item)) \<and>
   set (disposeMesh m) =
     {Geometry (geometry m)} \<union>
     Material ` (case material m of Single mat \<Rightarrow> {mat} | Multi mats \<Rightarrow> set mats) \<and>
   PointLight k \<notin> set (concat (map disposeItem items)) \<and>
   light (cleanupBundle c) = light c \<and>
   body (cleanupBundle c) = body c \<and> leftEye (cleanupBundle c) = leftEye c \<and>
   rightEye (cleanupBundle c) = rightEye c"
  by (simp add: processCleanupQueue_disposed_passes disposeMesh_set disposeItem_no_light
      cleanupBundle_def) (simp add: disposeItem_def disposeMesh_set Un_assoc)

section \<open>Properties of the frame\<close>





lemma updateCreatures_frame:
  "disposed (fst (updateCreatures now st)) = disposed st"
  "cleanupQueueRef (fst (updateCreatures now st)) = cleanupQueueRef st"
  "projectilesRef (fst (updateCreatures now st)) = projectilesRef st"
  by (simp_all add: updateCreatures_def split: option.splits prod.splits)


text \<open>
  Within a frame only \<^verbatim>\<open>updateProjectiles\<close> changes the list of projectiles.
\<close>

lemma animate_projectiles:
  "projectilesRef (fst (animate f now st)) = projectilesRef (updateProjectiles f (handleMovement st))"
proof -
  obtain st3 err where u: "updateCreatures now (updateProjectiles f (handleMovement st)) = (st3, err)"
    by (metis surj_pair)
  have "projectilesRef st3 = projectilesRef (updateProjectiles f (handleMovement st))"
    using updateCreatures_frame(3)[of now "updateProjectiles f (handleMovement st)"] u by simp
  then show ?thesis
    using u by (cases err) (simp_all add: animate_def Let_def processCleanupQueue_def)
qed




section \<open>Properties of the creature pool\<close>

lemma stepCreature_result:
  fixes c :: creature and now :: real and i :: nat
  assumes walls: "walls = row0 # rows"
  defines "c1 \<equiv> c\<lparr>body := (body c)\<lparr>position := (position (body c))
                \<lparr>vy := 0.8 + sin (now + real i) * 0.1\<rparr>\<rparr>\<rparr>"
  shows "snd (stepCreature walls wb px pz now i c) = None \<and>
         (fst (stepCreature walls wb px pz now i c) = c1 \<or>
          (case stepTarget px pz c1 of (newX, newZ) \<Rightarrow>
             fst (stepCreature walls wb px pz now i c) = moveCreature newX newZ c1 \<and>
             (case gridCell (length row0) (length walls) newX newZ of (gridX, gridZ) \<Rightarrow>
                0 \<le> gridX \<and> gridX < int (length row0) \<and>
                0 \<le> gridZ \<and> gridZ < int (length walls) \<and>
                nat gridX < length (walls ! nat gridZ) \<and>
                walls ! nat gridZ ! nat gridX = 0)))"
proof -
  obtain newX newZ where t: "stepTarget px pz c1 = (newX, newZ)"
    by (metis surj_pair)
  obtain gridX gridZ where g: "gridCell (length row0) (length walls) newX newZ = (gridX, gridZ)"
    by (metis surj_pair)
  show ?thesis
    unfolding stepCreature_def Let_def c1_def[symmetric]
    using t g walls
    by (auto simp add: cellIsOpen_def Let_def split: if_splits bool.splits)
qed

lemma stepTarget_bob:
  "stepTarget px pz (c\<lparr>body := (body c)\<lparr>position := (position (body c))\<lparr>vy := y\<rparr>\<rparr>\<rparr>) =
   stepTarget px pz c"
  by (simp add: stepTarget_def)

lemma onFloor_bob:
  "onFloor walls (c\<lparr>body := (body c)\<lparr>position := (position (body c))\<lparr>vy := y\<rparr>\<rparr>\<rparr>) =
   onFloor walls c"
  by (cases walls) (simp_all add: onFloor_def)

lemma moveCreature_position:
  "vx (position (body (moveCreature newX newZ c))) = newX"
  "vz (position (body (moveCreature newX newZ c))) = newZ"
  by (simp_all add: moveCreature_def)

lemma stepCreature_onFloor:
  assumes "onFloor walls c"
  shows "snd (stepCreature walls wb px pz now i c) = None \<and>
         onFloor walls (fst (stepCreature walls wb px pz now i c))"
proof -
  obtain row0 rows where walls: "walls = row0 # rows"
    using assms by (cases walls) (simp_all add: onFloor_def)
  define c1 where "c1 = c\<lparr>body := (body c)\<lparr>position := (position (body c))
                \<lparr>vy := 0.8 + sin (now + real i) * 0.1\<rparr>\<rparr>\<rparr>"
  have c1: "onFloor walls c1"
    using assms unfolding c1_def by (simp only: onFloor_bob)
  obtain newX newZ where t: "stepTarget px pz c1 = (newX, newZ)"
    by (metis surj_pair)
  have moved: "onFloor walls (moveCreature newX newZ c1)"
    if "case gridCell (length row0) (length walls) newX newZ of (gridX, gridZ) \<Rightarrow>
                0 \<le> gridX \<and> gridX < int (length row0) \<and>
                0 \<le> gridZ \<and> gridZ < int (length walls) \<and>
                nat gridX < length (walls ! nat gridZ) \<and>
                walls ! nat gridZ ! nat gridX = 0"
    using that unfolding onFloor_def walls by (simp add: moveCreature_position)
  from stepCreature_result[OF walls, of wb px pz now i c] show ?thesis
    unfolding c1_def[symmetric] t using c1 moved by auto
qed

lemma stepCreature_out_of_bounds:
  fixes c :: creature and now :: real and i :: nat
  assumes walls: "walls = row0 # rows"
    and out: "case stepTarget px pz c of (newX, newZ) \<Rightarrow>
                (case gridCell (length row0) (length walls) newX newZ of (gridX, gridZ) \<Rightarrow>
                   gridX < 0 \<or> int (length row0) \<le> gridX \<or> gridZ < 0 \<or> int (length walls) \<le> gridZ)"
  shows "stepCreature walls wb px pz now i c =
           (c\<lparr>body := (body c)\<lparr>position := (position (body c))
                \<lparr>vy := 0.8 + sin (now + real i) * 0.1\<rparr>\<rparr>\<rparr>, None)"
proof -
  define c1 where "c1 = c\<lparr>body := (body c)\<lparr>position := (position (body c))
                \<lparr>vy := 0.8 + sin (now + real i) * 0.1\<rparr>\<rparr>\<rparr>"
  obtain newX newZ where t: "stepTarget px pz c1 = (newX, newZ)"
    by (metis surj_pair)
  then have t': "stepTarget px pz c = (newX, newZ)"
    unfolding c1_def by (simp only: stepTarget_bob)
  obtain gridX gridZ where g: "gridCell (length row0) (length walls) newX newZ = (gridX, gridZ)"
    by (metis surj_pair)
  have "gridX < 0 \<or> int (length row0) \<le> gridX \<or> gridZ < 0 \<or> int (length walls) \<le> gridZ"
    using out t' g by simp
  then show ?thesis
    unfolding stepCreature_def Let_def c1_def[symmetric]
    using t g walls by auto
qed

lemma creaturesLoop_onFloor:
  assumes "\<forall>c\<in>set cs. onFloor walls c"
  shows "snd (creaturesLoop walls wb px pz now i cs) = None \<and>
         length (fst (creaturesLoop walls wb px pz now i cs)) = length cs \<and>
         (\<forall>c\<in>set (fst (creaturesLoop walls wb px pz now i cs)). onFloor walls c)"
  using assms
proof (induction cs arbitrary: i)
  case Nil
  show ?case by simp
next
  case (Cons c cs)
  obtain c' where s: "stepCreature walls wb px pz now i c = (c', None)" and f: "onFloor walls c'"
    using stepCreature_onFloor[of walls c wb px pz now i] Cons.prems
    by (cases "stepCreature walls wb px pz now i c") auto
  obtain cs' err where l: "creaturesLoop walls wb px pz now (Suc i) cs = (cs', err)"
    by (metis surj_pair)
  from Cons.IH[of "Suc i"] Cons.prems l
  have "err = None" "length cs' = length cs" "\<forall>c\<in>set cs'. onFloor walls c" by auto
  then show ?case using s l f by simp
qed

lemma updateCreatures_onFloor:
  assumes "mapDataRef st = Some walls" and "\<forall>c\<in>set (creaturesRef st). onFloor walls c"
  shows "snd (updateCreatures now st) = None \<and>
         length (creaturesRef (fst (updateCreatures now st))) = length (creaturesRef st) \<and>
         (\<forall>c\<in>set (creaturesRef (fst (updateCreatures now st))). onFloor walls c)"
proof -
  obtain cs err where l: "creaturesLoop walls (wallsRef st) (player_x (playerRef st))
                  (player_y (playerRef st)) now 0 (creaturesRef st) = (cs, err)"
    by (metis surj_pair)
  from creaturesLoop_onFloor[OF assms(2), of "wallsRef st" "player_x (playerRef st)"
      "player_y (playerRef st)" now 0] l
  show ?thesis using assms(1) by (simp add: updateCreatures_def)
qed

lemma rowSpaces_cells:
  assumes "(x, z) \<in> set (rowSpaces width height row col cells)"
  shows "\<exists>j<length cells. cells ! j = 0 \<and> x = (real (col + j) - real width / 2) * 2 \<and>
           z = (real row - real height / 2) * 2"
  using assms
proof (induction cells arbitrary: col)
  case Nil
  then show ?case by simp
next
  case (Cons cell cells)
  show ?case
  proof (cases "(x, z) \<in> set (rowSpaces width height row (Suc col) cells)")
    case True
    from Cons.IH[OF True] obtain j where "j < length cells" "cells ! j = 0"
      "x = (real (Suc col + j) - real width / 2) * 2" "z = (real row - real height / 2) * 2"
      by blast
    then show ?thesis
      by (intro exI[of _ "Suc j"]) simp
  next
    case False
    then have "cell = 0" "x = (real col - real width / 2) * 2" "z = (real row - real height / 2) * 2"
      using Cons.prems by (auto split: if_splits)
    then show ?thesis
      by (intro exI[of _ 0]) simp
  qed
qed

lemma gridSpaces_cells:
  assumes "(x, z) \<in> set (gridSpaces width height row rows)"
  shows "\<exists>r<length rows. \<exists>j<length (rows ! r). rows ! r ! j = 0 \<and>
           x = (real j - real width / 2) * 2 \<and> z = (real (row + r) - real height / 2) * 2"
  using assms
proof (induction rows arbitrary: row)
  case Nil
  then show ?case by simp
next
  case (Cons cells rows)
  show ?case
  proof (cases "(x, z) \<in> set (rowSpaces width height row 0 cells)")
    case True
    from rowSpaces_cells[OF True] obtain j where "j < length cells" "cells ! j = 0"
      "x = (real (0 + j) - real width / 2) * 2" "z = (real row - real height / 2) * 2"
      by blast
    then show ?thesis
      by (intro exI[of _ 0]) auto
  next
    case False
    then have "(x, z) \<in> set (gridSpaces width height (Suc row) rows)"
      using Cons.prems by simp
    from Cons.IH[OF this] obtain r j where "r < length rows" "j < length (rows ! r)"
      "rows ! r ! j = 0" "x = (real j - real width / 2) * 2"
      "z = (real (Suc row + r) - real height / 2) * 2"
      by blast
    then show ?thesis
      by (intro exI[of _ "Suc r"]) auto
  qed
qed

lemma gridCell_of_cell:
  "gridCell width height ((real j - real width / 2) * 2) ((real r - real height / 2) * 2) =
     (int j, int r)"
proof -
  have "((real j - real width / 2) * 2 + (real width * 2) / 2) / 2 = real j"
       "((real r - real height / 2) * 2 + (real height * 2) / 2) / 2 = real r"
    by (simp_all add: field_simps)
  then show ?thesis by (simp add: gridCell_def)
qed

lemma onFloor_iff:
  assumes "walls = row0 # rows"
    and "gridCell (length row0) (length walls) (vx (position (body c))) (vz (position (body c))) =
           (gridX, gridZ)"
  shows "onFloor walls c \<longleftrightarrow>
           0 \<le> gridX \<and> gridX < int (length row0) \<and> 0 \<le> gridZ \<and> gridZ < int (length walls) \<and>
           nat gridX < length (walls ! nat gridZ) \<and> walls ! nat gridZ ! nat gridX = 0"
  using assms by (simp add: onFloor_def)

lemma openSpaces_onFloor:
  assumes open_cell: "(x, z) \<in> set (openSpacesOf walls)"
    and rect: "\<forall>row\<in>set walls. length row = length (hd walls)"
    and at: "vx (position (body c)) = x" "vz (position (body c)) = z"
  shows "onFloor walls c"
proof -
  obtain row0 rows where walls: "walls = row0 # rows"
    using open_cell by (cases walls) (simp_all add: openSpacesOf_def)
  from open_cell have "(x, z) \<in> set (gridSpaces (length row0) (length walls) 0 walls)"
    by (simp add: openSpacesOf_def walls)
  from gridSpaces_cells[OF this] obtain r j where
    rj: "r < length walls" "j < length (walls ! r)" "walls ! r ! j = 0"
      "x = (real j - real (length row0) / 2) * 2" "z = (real r - real (length walls) / 2) * 2"
    by auto
  have "walls ! r \<in> set walls" using rj(1) by simp
  then have "length (walls ! r) = length row0"
    using rect by (auto simp add: walls)
  then have "j < length row0" using rj(2) by simp
  moreover have "gridCell (length row0) (length walls) (vx (position (body c)))
                   (vz (position (body c))) = (int j, int r)"
    unfolding at rj(4,5) by (rule gridCell_of_cell)
  ultimately show ?thesis
    using rj(1,2,3) by (simp add: onFloor_iff[OF walls])
qed


section \<open>Properties of creature spawning\<close>

lemma spawnCreature_creatures:
  "\<exists>c. creaturesRef (spawnCreature pos st) = creaturesRef st @ [c] \<and>
       vx (position (body c)) = fst pos \<and> vz (position (body c)) = snd pos"
  by (simp add: spawnCreature_def Let_def)

lemma spawnLoop_length:
  "length (creaturesRef (spawnLoop sp i n st)) =
     length (creaturesRef st) + min n (length sp - i)"
proof (induction n arbitrary: i st)
  case 0
  show ?case by simp
next
  case (Suc n)
  show ?case
  proof (cases "i < length sp")
    case True
    obtain c where "creaturesRef (spawnCreature (sp ! i) st) = creaturesRef st @ [c]"
      using spawnCreature_creatures by blast
    then show ?thesis using True Suc.IH[of "Suc i" "spawnCreature (sp ! i) st"] by simp
  next
    case False
    then show ?thesis using Suc.IH[of "Suc i" st] by simp
  qed
qed

lemma spawnLoop_positions:
  "\<forall>c\<in>set (creaturesRef (spawnLoop sp i n st)).
      c \<in> set (creaturesRef st) \<or>
      (vx (position (body c)), vz (position (body c))) \<in> set sp"
proof (induction n arbitrary: i st)
  case 0
  show ?case by simp
next
  case (Suc n)
  show ?case
  proof (cases "i < length sp")
    case True
    obtain c where c: "creaturesRef (spawnCreature (sp ! i) st) = creaturesRef st @ [c]"
      "vx (position (body c)) = fst (sp ! i)" "vz (position (body c)) = snd (sp ! i)"
      using spawnCreature_creatures by blast
    have "(vx (position (body c)), vz (position (body c))) \<in> set sp"
      using c(2,3) True by simp
    then show ?thesis
      using True Suc.IH[of "Suc i" "spawnCreature (sp ! i) st"] c(1) by auto
  next
    case False
    then show ?thesis using Suc.IH[of "Suc i" st] by simp
  qed
qed

lemma rowSpaces_length:
  "length (rowSpaces width height row col cells) = length (filter (\<lambda>cell. cell = 0) cells)"
  by (induction cells arbitrary: col) simp_all

lemma gridSpaces_length:
  "length (gridSpaces width height row rows) = length (filter (\<lambda>cell. cell = 0) (concat rows))"
  by (induction rows arbitrary: row) (simp_all add: rowSpaces_length)

lemma openSpacesOf_length:
  "length (openSpacesOf walls) = length (filter (\<lambda>cell. cell = 0) (concat walls))"
  by (cases walls) (simp_all add: openSpacesOf_def gridSpaces_length rowSpaces_length)

lemma createShadowCreatures_onFloor:
  assumes "mapDataRef st = Some walls"
    and "set (shuffle (openSpacesOf walls)) \<subseteq> set (openSpacesOf walls)"
    and "\<forall>row\<in>set walls. length row = length (hd walls)"
  shows "\<forall>c\<in>set (creaturesRef (createShadowCreatures shuffle st)). onFloor walls c"
proof
  fix c
  assume "c \<in> set (creaturesRef (createShadowCreatures shuffle st))"
  then have "c \<in> set (creaturesRef (spawnLoop (shuffle (openSpacesOf walls)) 0
                 (numCreaturesOf (length (openSpacesOf walls)))
                 (st\<lparr>cleanupQueueRef := cleanupQueueRef st @ map cleanupBundle (creaturesRef st),
                    creaturesRef := []\<rparr>)))"
    using assms(1) by (simp add: createShadowCreatures_def Let_def)
  then have "(vx (position (body c)), vz (position (body c))) \<in> set (shuffle (openSpacesOf walls))"
    using spawnLoop_positions[of "shuffle (openSpacesOf walls)" 0
        "numCreaturesOf (length (openSpacesOf walls))"
        "st\<lparr>cleanupQueueRef := cleanupQueueRef st @ map cleanupBundle (creaturesRef st),
                    creaturesRef := []\<rparr>"]
    by auto
  then have "(vx (position (body c)), vz (position (body c))) \<in> set (openSpacesOf walls)"
    using assms(2) by blast
  then show "onFloor walls c"
    using assms(3) by (rule openSpaces_onFloor) simp_all
qed

lemma createShadowCreatures_length:
  assumes "mapDataRef st = Some walls"
    and "length (shuffle (openSpacesOf walls)) = length (openSpacesOf walls)"
  shows "length (creaturesRef (createShadowCreatures shuffle st)) =
           min (numCreaturesOf (length (openSpacesOf walls))) (length (openSpacesOf walls))"
  using assms
  by (simp add: createShadowCreatures_def Let_def spawnLoop_length)

text \<open>
  C8, as the code has it. \<open>openSpacesOf walls\<close> holds one position for each cell of the map
  that is \<open>0\<close>. When a map with at least three such cells is loaded, the number of creatures
  in the pool after \<^verbatim>\<open>createShadowCreatures\<close> is \<open>clamp(floor(openCellCount / 10), 3, 5)\<close>;
  for a map with \<open>50\<close> floor cells it is \<open>5\<close>.
\<close>

theorem creature_count_clamped:
  "length (openSpacesOf walls) = length (filter (\<lambda>cell. cell = 0) (concat walls)) \<and>
   (mapDataRef st = Some walls \<and>
    length (shuffle (openSpacesOf walls)) = length (openSpacesOf walls) \<and>
    3 \<le> length (openSpacesOf walls) \<longrightarrow>
      length (creaturesRef (createShadowCreatures shuffle st)) =
        min 5 (max 3 (length (openSpacesOf walls) div 10))) \<and>
   (mapDataRef st = Some walls \<and>
    length (shuffle (openSpacesOf walls)) = length (openSpacesOf walls) \<and>
    length (openSpacesOf walls) = 50 \<longrightarrow>
      length (creaturesRef (createShadowCreatures shuffle st)) = 5)"
proof (intro conjI impI)
  show "length (openSpacesOf walls) = length (filter (\<lambda>cell. cell = 0) (concat walls))"
    by (rule openSpacesOf_length)
next
  assume h: "mapDataRef st = Some walls \<and>
    length (shuffle (openSpacesOf walls)) = length (openSpacesOf walls) \<and>
    3 \<le> length (openSpacesOf walls)"
  then have "length (creaturesRef (createShadowCreatures shuffle st)) =
           min (numCreaturesOf (length (openSpacesOf walls))) (length (openSpacesOf walls))"
    by (simp add: createShadowCreatures_length)
  moreover have "min 5 (max 3 (length (openSpacesOf walls) div 10)) \<le> length (openSpacesOf walls)"
    using h by linarith
  ultimately show "length (creaturesRef (createShadowCreatures shuffle st)) =
        min 5 (max 3 (length (openSpacesOf walls) div 10))"
    by (simp add: numCreaturesOf_def)
next
  assume h: "mapDataRef st = Some walls \<and>
    length (shuffle (openSpacesOf walls)) = length (openSpacesOf walls) \<and>
    length (openSpacesOf walls) = 50"
  then have "length (creaturesRef (createShadowCreatures shuffle st)) =
           min (numCreaturesOf (length (openSpacesOf walls))) (length (openSpacesOf walls))"
    by (simp add: createShadowCreatures_length)
  then show "length (creaturesRef (createShadowCreatures shuffle st)) = 5"
    using h by (simp add: numCreaturesOf_def)
qed

lemma fiftyCellMap_count: "length (openSpacesOf fiftyCellMap) = 50"
  by (simp add: openSpacesOf_length fiftyCellMap_def)

theorem creature_count_clamped_witness:
  "mapDataRef fiftyCellScene = Some fiftyCellMap \<and>
   length (openSpacesOf fiftyCellMap) = 50 \<and>
   length (creaturesRef (createShadowCreatures rev fiftyCellScene)) = 5"
proof -
  have m: "mapDataRef fiftyCellScene = Some fiftyCellMap"
    by (simp add: fiftyCellScene_def)
  have s: "length (rev (openSpacesOf fiftyCellMap)) = length (openSpacesOf fiftyCellMap)"
    by simp
  show ?thesis
    using creature_count_clamped [where st = fiftyCellScene and walls = fiftyCellMap and shuffle = rev]
      m s fiftyCellMap_count by blast
qed

text \<open>
  A map with two floor cells: the clamped count is \<open>3\<close>, and two creatures are created.
\<close>

theorem creature_count_counterexample:
  "mapDataRef twoCellScene = Some [[0, 0]] \<and>
   length (openSpacesOf [[0, 0]]) = 2 \<and>
   numCreaturesOf (length (openSpacesOf [[0, 0]])) = 3 \<and>
   length (creaturesRef (createShadowCreatures rev twoCellScene)) = 2"
proof -
  have m: "mapDataRef twoCellScene = Some [[0, 0]]"
    by (simp add: twoCellScene_def)
  have n: "length (openSpacesOf [[0, 0]]) = 2"
    by (simp add: openSpacesOf_length)
  have "length (creaturesRef (createShadowCreatures rev twoCellScene)) =
          min (numCreaturesOf (length (openSpacesOf [[0, 0]]))) (length (openSpacesOf [[0, 0]]))"
    by (rule createShadowCreatures_length[OF m]) simp
  then show ?thesis
    using m n by (simp add: numCreaturesOf_def)
qed

text \<open>
  C10. The spawn loop runs \<open>clamp(floor(openCellCount / 10), 3, 5)\<close> times and skips the
  iterations whose index lies beyond the sampled positions, so for every map the number
  of creatures created is the smaller of the clamped count and the number of floor
  cells.
\<close>

theorem creature_count_limited_by_floor_cells:
  assumes "mapDataRef st = Some walls"
    and "length (shuffle (openSpacesOf walls)) = length (openSpacesOf walls)"
  shows "length (openSpacesOf walls) = length (filter (\<lambda>cell. cell = 0) (concat walls)) \<and>
         length (creaturesRef (createShadowCreatures shuffle st)) =
           min (min 5 (max 3 (length (openSpacesOf walls) div 10))) (length (openSpacesOf walls))"
  using createShadowCreatures_length[where shuffle = shuffle and st = st and walls = walls] assms
  by (simp add: numCreaturesOf_def openSpacesOf_length)

theorem creature_count_limited_by_floor_cells_witness:
  "mapDataRef twoCellScene = Some [[0, 0]] \<and>
   length (rev (openSpacesOf [[0, 0]])) = length (openSpacesOf [[0, 0]]) \<and>
   length (creaturesRef (createShadowCreatures rev twoCellScene)) = min (min 5 (max 3 (2 div 10))) 2"
proof -
  have m: "mapDataRef twoCellScene = Some [[0, 0]]"
    by (simp add: twoCellScene_def)
  have s: "length (rev (openSpacesOf [[0, 0]])) = length (openSpacesOf [[0, 0]])"
    by simp
  have n: "length (openSpacesOf [[0, 0]]) = 2"
    by (simp add: openSpacesOf_length)
  show ?thesis
    using creature_count_limited_by_floor_cells
            [where shuffle = rev and st = twoCellScene and walls = "[[0, 0]]"] m n
    by simp
qed

text \<open>
  C4. A creature that stands on a floor cell still stands on a floor cell after its step,
  whether the step was accepted or not, and the step throws no error; the same holds for
  all creatures of the pool over one call of \<^verbatim>\<open>updateCreatures\<close>. On a map with at
  least one row, a candidate whose grid cell lies outside the grid leaves the creature
  where it is (only the height of the floating body is updated) and throws no error.
  The creatures that \<^verbatim>\<open>createShadowCreatures\<close> puts on a rectangular map all stand on
  floor cells, whatever order the shuffle gives the floor cells.
\<close>

theorem creatures_stay_on_floor:
  "(onFloor walls c \<longrightarrow>
      snd (stepCreature walls wb px pz now i c) = None \<and>
      onFloor walls (fst (stepCreature walls wb px pz now i c))) \<and>
   (mapDataRef st = Some walls \<and> (\<forall>c\<in>set (creaturesRef st). onFloor walls c) \<longrightarrow>
      snd (updateCreatures now st) = None \<and>
      length (creaturesRef (fst (updateCreatures now st))) = length (creaturesRef st) \<and>
      (\<forall>c\<in>set (creaturesRef (fst (updateCreatures now st))). onFloor walls c)) \<and>
   (walls = firstRow # otherRows \<and>
    (case stepTarget px pz c of (newX, newZ) \<Rightarrow>
       (case gridCell (length firstRow) (length walls) newX newZ of (gridX, gridZ) \<Rightarrow>
          gridX < 0 \<or> int (length firstRow) \<le> gridX \<or> gridZ < 0 \<or> int (length walls) \<le> gridZ)) \<longrightarrow>
      stepCreature walls wb px pz now i c =
        (c\<lparr>body := (body c)\<lparr>position := (position (body c))
                \<lparr>vy := 0.8 + sin (now + real i) * 0.1\<rparr>\<rparr>\<rparr>, None)) \<and>
   (mapDataRef st = Some walls \<and>
    set (shuffle (openSpacesOf walls)) \<subseteq> set (openSpacesOf walls) \<and>
    (\<forall>row\<in>set walls. length row = length (hd walls)) \<longrightarrow>
      (\<forall>c\<in>set (creaturesRef (createShadowCreatures shuffle st)). onFloor walls c))"
proof (intro conjI impI)
  assume "onFloor walls c"
  then have "snd (stepCreature walls wb px pz now i c) = None \<and>
         onFloor walls (fst (stepCreature walls wb px pz now i c))"
    by (rule stepCreature_onFloor)
  then show "snd (stepCreature walls wb px pz now i c) = None"
    and "onFloor walls (fst (stepCreature walls wb px pz now i c))"
    by simp_all
next
  assume h: "mapDataRef st = Some walls \<and> (\<forall>c\<in>set (creaturesRef st). onFloor walls c)"
  then have u: "snd (updateCreatures now st) = None \<and>
         length (creaturesRef (fst (updateCreatures now st))) = length (creaturesRef st) \<and>
         (\<forall>c\<in>set (creaturesRef (fst (updateCreatures now st))). onFloor walls c)"
    using updateCreatures_onFloor[of st walls now] by blast
  from u show "snd (updateCreatures now st) = None" by simp
  from u show "length (creaturesRef (fst (updateCreatures now st))) = length (creaturesRef st)"
    by simp
  from u show "\<forall>c\<in>set (creaturesRef (fst (updateCreatures now st))). onFloor walls c"
    by simp
next
  assume "walls = firstRow # otherRows \<and>
    (case stepTarget px pz c of (newX, newZ) \<Rightarrow>
       (case gridCell (length firstRow) (length walls) newX newZ of (gridX, gridZ) \<Rightarrow>
          gridX < 0 \<or> int (length firstRow) \<le> gridX \<or> gridZ < 0 \<or> int (length walls) \<le> gridZ))"
  then have w: "walls = firstRow # otherRows"
    and out: "case stepTarget px pz c of (newX, newZ) \<Rightarrow>
       (case gridCell (length firstRow) (length walls) newX newZ of (gridX, gridZ) \<Rightarrow>
          gridX < 0 \<or> int (length firstRow) \<le> gridX \<or> gridZ < 0 \<or> int (length walls) \<le> gridZ)"
    by (rule conjunct1, rule conjunct2)
  show "stepCreature walls wb px pz now i c =
        (c\<lparr>body := (body c)\<lparr>position := (position (body c))
                \<lparr>vy := 0.8 + sin (now + real i) * 0.1\<rparr>\<rparr>\<rparr>, None)"
    by (rule stepCreature_out_of_bounds[OF w out])
next
  assume "mapDataRef st = Some walls \<and>
    set (shuffle (openSpacesOf walls)) \<subseteq> set (openSpacesOf walls) \<and>
    (\<forall>row\<in>set walls. length row = length (hd walls))"
  then show "\<forall>c\<in>set (creaturesRef (createShadowCreatures shuffle st)). onFloor walls c"
    using createShadowCreatures_onFloor[where st = st and walls = walls and shuffle = shuffle]
    by blast
qed

lemma sqrt_9: "sqrt 9 = (3::real)"
proof -
  have "sqrt ((3::real)\<^sup>2) = 3" by simp
  then show ?thesis by (simp add: power2_eq_square)
qed

lemma edgeScene_parts:
  "mapDataRef edgeScene = Some [[0, 0], [0, 0]]"
  "wallsRef edgeScene = []"
  "player_x (playerRef edgeScene) = 4.99"
  "player_y (playerRef edgeScene) = 0"
  "length (creaturesRef edgeScene) = 1"
  "vx (position (body (creaturesRef edgeScene ! 0))) = 1.99"
  "vz (position (body (creaturesRef edgeScene ! 0))) = 0"
  by (simp_all add: edgeScene_def spawnCreature_def openScene_def Let_def)

lemma edgeScene_target: "stepTarget 4.99 0 (creaturesRef edgeScene ! 0) = (2.01, 0)"
  by (simp add: stepTarget_def Let_def edgeScene_parts sqrt_9)

lemma edgeScene_cells:
  "gridCell 2 2 1.99 0 = (1, 1)" "gridCell 2 2 2.01 0 = (2, 1)"
  by (simp_all add: gridCell_def)

theorem creatures_stay_on_floor_witness:
  "onFloor [[0, 0], [0, 0]] (creaturesRef edgeScene ! 0) \<and>
   stepTarget 4.99 0 (creaturesRef edgeScene ! 0) = (2.01, 0) \<and>
   gridCell 2 2 2.01 0 = (2, 1) \<and>
   snd (updateCreatures 0 edgeScene) = None \<and>
   onFloor [[0, 0], [0, 0]] (creaturesRef (fst (updateCreatures 0 edgeScene)) ! 0) \<and>
   vx (position (body (fst (stepCreature [[0, 0], [0, 0]] [] 4.99 0 0 0
                              (creaturesRef edgeScene ! 0))))) = 1.99"
proof -
  define c where "c = creaturesRef edgeScene ! 0"
  have cs: "creaturesRef edgeScene = [c]"
    using edgeScene_parts(5) unfolding c_def
    by (cases "creaturesRef edgeScene") simp_all
  have g0: "gridCell (length [0, 0 :: int]) (length [[0, 0], [0, 0 :: int]])
              (vx (position (body c))) (vz (position (body c))) = (1, 1)"
    unfolding c_def by (simp add: edgeScene_parts gridCell_def)
  have floor0: "onFloor [[0, 0], [0, 0]] c"
    using onFloor_iff[OF refl g0] by simp
  have all: "\<forall>c\<in>set (creaturesRef edgeScene). onFloor [[0, 0], [0, 0]] c"
    using floor0 by (simp add: cs)
  have out: "case stepTarget 4.99 0 c of (newX, newZ) \<Rightarrow>
       (case gridCell (length [0, 0 :: int]) (length [[0, 0], [0, 0 :: int]]) newX newZ of
          (gridX, gridZ) \<Rightarrow>
          gridX < 0 \<or> int (length [0, 0 :: int]) \<le> gridX \<or> gridZ < 0 \<or>
          int (length [[0, 0], [0, 0 :: int]]) \<le> gridZ)"
    unfolding c_def using edgeScene_target by (simp add: gridCell_def)
  note inst = creatures_stay_on_floor
    [where walls = "[[0, 0], [0, 0]]" and st = edgeScene and now = 0 and firstRow = "[0, 0]"
       and otherRows = "[[0, 0]]" and px = "4.99" and pz = 0 and c = c and wb = "[]" and i = 0]
  have upd: "snd (updateCreatures 0 edgeScene) = None \<and>
      length (creaturesRef (fst (updateCreatures 0 edgeScene))) = length (creaturesRef edgeScene) \<and>
      (\<forall>c\<in>set (creaturesRef (fst (updateCreatures 0 edgeScene))). onFloor [[0, 0], [0, 0]] c)"
    by (rule mp[OF inst[THEN conjunct2, THEN conjunct1] conjI[OF edgeScene_parts(1) all]])
  then have "creaturesRef (fst (updateCreatures 0 edgeScene)) ! 0
               \<in> set (creaturesRef (fst (updateCreatures 0 edgeScene)))"
    by (simp add: cs)
  with upd have floor1: "onFloor [[0, 0], [0, 0]] (creaturesRef (fst (updateCreatures 0 edgeScene)) ! 0)"
    by blast
  have "stepCreature [[0, 0], [0, 0]] [] 4.99 0 0 0 c =
        (c\<lparr>body := (body c)\<lparr>position := (position (body c))
                \<lparr>vy := 0.8 + sin (0 + real (0::nat)) * 0.1\<rparr>\<rparr>\<rparr>, None)"
    by (rule mp[OF inst[THEN conjunct2, THEN conjunct2, THEN conjunct1] conjI[OF refl out]])
  then have "vx (position (body (fst (stepCreature [[0, 0], [0, 0]] [] 4.99 0 0 0 c)))) = 1.99"
    by (simp add: c_def edgeScene_parts)
  then show ?thesis
    using floor0 floor1 upd edgeScene_target edgeScene_cells unfolding c_def by simp
qed















section \<open>Retirement of projectiles in a list, and what is disposed\<close>

lemma filterProjectiles_snoc:
  "filterProjectiles f (ps @ [p]) st =
     (case filterProjectiles f ps st of
        (kept, st1) \<Rightarrow>
          (case projectileStep f p st1 of
             (keep, flags, p', st2) \<Rightarrow> (if keep then kept @ [p'] else kept, st2)))"
proof (induction ps arbitrary: st)
  case Nil
  show ?case by (simp split: prod.splits)
next
  case (Cons a ps)
  show ?case
    by (simp add: Cons.IH split: prod.splits)
qed

text \<open>
  The list that the filter returns, for any list of projectiles: the projectile at index
  \<open>k\<close> meets the state left by the callbacks of the projectiles before it, and it is in
  the result, advanced, exactly when its own callback returns true; the order is kept.
\<close>

lemma filterProjectiles_kept:
  "fst (filterProjectiles f ps st) =
     map (\<lambda>k. advance (ps ! k))
       (filter (\<lambda>k. fst (projectileStep f (ps ! k) (snd (filterProjectiles f (take k ps) st))))
          [0..<length ps])"
proof (induction ps rule: rev_induct)
  case Nil
  show ?case by simp
next
  case (snoc p ps)
  define K where "K qs k = fst (projectileStep f (qs ! k) (snd (filterProjectiles f (take k qs) st)))"
    for qs k
  define A where "A qs k = advance (qs ! k)" for qs :: "projectile list" and k
  obtain kept st1 where s: "filterProjectiles f ps st = (kept, st1)"
    by (metis surj_pair)
  obtain keep flags p' st2 where t: "projectileStep f p st1 = (keep, flags, p', st2)"
    by (metis prod_cases4)
  have p': "p' = advance p"
    using projectileStep_projectile[of f p st1] t by simp
  have ih: "kept = map (A ps) (filter (K ps) [0..<length ps])"
    using snoc.IH s unfolding K_def A_def by simp
  have same: "filter (K (ps @ [p])) [0..<length ps] = filter (K ps) [0..<length ps]"
    unfolding K_def by (rule filter_cong) (simp_all add: nth_append)
  have maps: "map (A (ps @ [p])) (filter (K ps) [0..<length ps]) =
              map (A ps) (filter (K ps) [0..<length ps])"
    unfolding A_def by (rule map_cong) (auto simp add: nth_append)
  have last: "K (ps @ [p]) (length ps) = keep" "A (ps @ [p]) (length ps) = advance p"
    unfolding K_def A_def using s t by simp_all
  have "fst (filterProjectiles f (ps @ [p]) st) = (if keep then kept @ [advance p] else kept)"
    using s t p' by (simp add: filterProjectiles_snoc)
  also have "\<dots> = map (A (ps @ [p])) (filter (K (ps @ [p])) [0..<length (ps @ [p])])"
    by (simp only: length_append_singleton upt_Suc_append[OF le0] filter_append map_append
          same maps last ih filter.simps list.map append_Nil2 if_distrib[of "map (A (ps @ [p]))"]
          if_distrib[of "\<lambda>xs. map (A ps) (filter (K ps) [0..<length ps]) @ xs"])
  finally show ?case unfolding K_def A_def .
qed

lemma filterProjectiles_disposed:
  "disposed (snd (filterProjectiles f ps st)) =
     disposed st @
     concat (map (\<lambda>k. if fst (projectileStep f (ps ! k) (snd (filterProjectiles f (take k ps) st)))
                        then [] else disposeMesh (mesh (ps ! k)))
               [0..<length ps])"
proof (induction ps rule: rev_induct)
  case Nil
  show ?case by simp
next
  case (snoc p ps)
  define G where "G qs k = (if fst (projectileStep f (qs ! k) (snd (filterProjectiles f (take k qs) st)))
                        then [] else disposeMesh (mesh (qs ! k)))" for qs k
  obtain kept st1 where s: "filterProjectiles f ps st = (kept, st1)"
    by (metis surj_pair)
  obtain keep flags p' st2 where t: "projectileStep f p st1 = (keep, flags, p', st2)"
    by (metis prod_cases4)
  have d: "disposed st2 = disposed st1 @ (if keep then [] else disposeMesh (mesh p))"
    using projectileStep_disposed[of f p st1] t by simp
  have ih: "disposed st1 = disposed st @ concat (map (G ps) [0..<length ps])"
    using snoc.IH s unfolding G_def by simp
  have same: "map (G (ps @ [p])) [0..<length ps] = map (G ps) [0..<length ps]"
    unfolding G_def by (rule map_cong) (simp_all add: nth_append)
  have last: "G (ps @ [p]) (length ps) = (if keep then [] else disposeMesh (mesh p))"
    unfolding G_def using s t by simp
  have "disposed (snd (filterProjectiles f (ps @ [p]) st)) = disposed st2"
    using s t by (simp add: filterProjectiles_snoc)
  also have "\<dots> = disposed st @ concat (map (G ps) [0..<length ps]) @
                     (if keep then [] else disposeMesh (mesh p))"
    using d ih by simp
  also have "\<dots> = disposed st @ concat (map (G (ps @ [p])) [0..<length (ps @ [p])])"
    by (simp only: length_append_singleton upt_Suc_append[OF le0] map_append concat_append
          same last list.map concat.simps append_Nil2)
  finally show ?case unfolding G_def .
qed

lemma updateProjectiles_list:
  assumes "sceneRef st"
  shows "projectilesRef (updateProjectiles f st) =
           map (\<lambda>k. advance (projectilesRef st ! k))
             (filter (\<lambda>k. fst (projectileStep f (projectilesRef st ! k)
                                 (snd (filterProjectiles f (take k (projectilesRef st)) st))))
                [0..<length (projectilesRef st)])"
    and "disposed (updateProjectiles f st) =
           disposed st @
           concat (map (\<lambda>k. if fst (projectileStep f (projectilesRef st ! k)
                                       (snd (filterProjectiles f (take k (projectilesRef st)) st)))
                              then [] else disposeMesh (mesh (projectilesRef st ! k)))
                     [0..<length (projectilesRef st)])"
proof -
  obtain kept st1 where s: "filterProjectiles f (projectilesRef st) st = (kept, st1)"
    by (metis surj_pair)
  have u: "updateProjectiles f st = st1\<lparr>projectilesRef := kept\<rparr>"
    using assms s by (simp add: updateProjectiles_def)
  show "projectilesRef (updateProjectiles f st) =
           map (\<lambda>k. advance (projectilesRef st ! k))
             (filter (\<lambda>k. fst (projectileStep f (projectilesRef st ! k)
                                 (snd (filterProjectiles f (take k (projectilesRef st)) st))))
                [0..<length (projectilesRef st)])"
    using filterProjectiles_kept[of f "projectilesRef st" st] s by (simp add: u)
  show "disposed (updateProjectiles f st) =
           disposed st @
           concat (map (\<lambda>k. if fst (projectileStep f (projectilesRef st ! k)
                                       (snd (filterProjectiles f (take k (projectilesRef st)) st)))
                              then [] else disposeMesh (mesh (projectilesRef st ! k)))
                     [0..<length (projectilesRef st)])"
    using filterProjectiles_disposed[of f "projectilesRef st" st] s by (simp add: u)
qed

lemma updateProjectiles_no_scene: "\<not> sceneRef st \<Longrightarrow> updateProjectiles f st = st"
  by (simp add: updateProjectiles_def)

text \<open>
  The verdict of the callback for a projectile of life \<open>100\<close> at its \<open>(k+1)\<close>-th update, in
  whatever state it meets there: if its box meets no wall and no creature of that state,
  both flags are false and it is kept exactly when \<open>k + 1 < 100\<close>.
\<close>

lemma bolt_verdict:
  assumes "life bolt = 100"
    and "\<forall>w\<in>set (wallsRef st). \<not> intersectsBox (f (mesh ((advance ^^ Suc k) bolt))) w"
    and "\<forall>c\<in>set (creaturesRef st).
            \<not> intersectsBox (f (mesh ((advance ^^ Suc k) bolt))) (collisionBox c)"
  shows "fst (projectileStep f ((advance ^^ k) bolt) st) = (Suc k < 100) \<and>
         fst (snd (projectileStep f ((advance ^^ k) bolt) st)) = (False, False)"
proof -
  have "(fst (projectileStep f ((advance ^^ k) bolt) st) = False) = (\<not> Suc k < 100)"
    using assms projectileStep_keep[of f "(advance ^^ k) bolt" st]
    by (simp add: life_advance) linarith
  then show ?thesis
    using assms by (auto simp add: projectileStep_flags)
qed


lemma updateProjectiles_single_disposed:
  assumes "sceneRef st" and "projectilesRef st = [p]"
  shows "disposed (updateProjectiles f st) =
           disposed st @ (if fst (projectileStep f p st) then [] else disposeMesh (mesh p))"
  using updateProjectiles_list(2)[OF assms(1), of f] by (simp add: assms(2))

lemma disposeMesh_advance: "disposeMesh (mesh ((advance ^^ k) p)) = disposeMesh (mesh p)"
  by (induction k) (simp_all add: advance_def disposeMesh_def)

lemma flightScene_log:
  "projectilesRef ((updateProjectiles boltBox ^^ 100) flightScene) = [] \<and>
   disposed ((updateProjectiles boltBox ^^ 100) flightScene) = [Geometry 0, Material 1]"
proof -
  define m where "m k = (updateProjectiles boltBox ^^ k) flightScene" for k
  define bolt where "bolt = \<lparr>mesh = \<lparr>position = \<lparr>vx = 0, vy = 1.4, vz = 0\<rparr>, geometry = 0,
                                     material = Single 1,
                                     children = [\<lparr>child_geometry = 2, child_material = Single 3\<rparr>]\<rparr>,
                             velocity = \<lparr>vx = 0, vy = 0, vz = - 0.8\<rparr>, life = 100\<rparr>"
  have fs: "sceneRef flightScene" "wallsRef flightScene = []" "creaturesRef flightScene = []"
    "projectilesRef flightScene = [bolt]" "disposed flightScene = []"
    by (simp_all add: flightScene_def shoot_def openScene_def Let_def multiplyScalar_def bolt_def)
  have scene: "\<forall>k. sceneRef (m k)"
    using updateProjectiles_iterated_env[where f=boltBox and st=flightScene] by (simp add: m_def fs)
  have empty: "wallsRef (m k) = [] \<and> creaturesRef (m k) = []" for k
    using updateProjectiles_iterated_env[where f=boltBox and st=flightScene and k=k]
    by (simp add: m_def fs)
  have start: "projectilesRef (m 0) = [bolt]" "life bolt = 100"
    by (simp_all add: m_def fs bolt_def)
  have frames: "\<forall>k. projectilesRef (m (Suc k)) = projectilesRef (updateProjectiles boltBox (m k))"
    by (simp add: m_def)
  have clear: "\<forall>k<100.
        (\<forall>w\<in>set (wallsRef (m k)). \<not> intersectsBox (boltBox (mesh ((advance ^^ Suc k) bolt))) w) \<and>
        (\<forall>c\<in>set (creaturesRef (m k)).
            \<not> intersectsBox (boltBox (mesh ((advance ^^ Suc k) bolt))) (collisionBox c))"
    using empty by simp
  have cur: "projectilesRef (m k) = [(advance ^^ k) bolt]" if "k < 100" for k
    using bolt_flight[OF scene start frames clear that] .
  have verdict: "fst (projectileStep boltBox ((advance ^^ k) bolt) (m k)) = (Suc k < 100)" for k
    using bolt_verdict[OF start(2), of "m k" boltBox k] empty[of k] by simp
  have step: "disposed (m (Suc k)) =
                disposed (m k) @ (if Suc k < 100 then [] else disposeMesh (mesh bolt))"
    if "k < 100" for k
  proof -
    have "disposed (m (Suc k)) = disposed (updateProjectiles boltBox (m k))"
      by (simp add: m_def)
    also have "\<dots> = disposed (m k) @
         (if fst (projectileStep boltBox ((advance ^^ k) bolt) (m k)) then []
          else disposeMesh (mesh ((advance ^^ k) bolt)))"
      using scene cur[OF that] by (intro updateProjectiles_single_disposed) simp_all
    finally show ?thesis
      by (simp only: verdict disposeMesh_advance)
  qed
  have quiet: "k < 100 \<Longrightarrow> disposed (m k) = []" for k
  proof (induction k)
    case 0
    show ?case by (simp add: m_def fs)
  next
    case (Suc k)
    then show ?case using step[of k] by simp
  qed
  have last: "(updateProjectiles boltBox ^^ 100) flightScene = updateProjectiles boltBox (m 99)"
  proof -
    have "(100::nat) = Suc 99" by simp
    then show ?thesis unfolding m_def by (simp only: funpow.simps o_apply)
  qed
  have "disposed (updateProjectiles boltBox (m 99)) =
          disposed (m 99) @
          (if fst (projectileStep boltBox ((advance ^^ 99) bolt) (m 99)) then []
           else disposeMesh (mesh ((advance ^^ 99) bolt)))"
    using scene cur[of 99] by (intro updateProjectiles_single_disposed) simp_all
  then have "disposed (updateProjectiles boltBox (m 99)) = disposeMesh (mesh bolt)"
    using quiet[of 99] by (simp add: verdict disposeMesh_advance)
  then have d: "disposed (updateProjectiles boltBox (m 99)) = [Geometry 0, Material 1]"
    by (simp add: bolt_def disposeMesh_def)
  have "projectilesRef (updateProjectiles boltBox (m 99)) = []"
    by (rule bolt_retired[OF scene start frames clear])
  then show ?thesis
    using d by (simp only: last simp_thms)
qed

text \<open>
  C7. The retirement condition and its timing are as the claim says, but a retired
  projectile's resources are not all freed: the code disposes the geometry and the
  material of the bolt mesh and nothing of the glow mesh that \<^verbatim>\<open>shoot\<close> adds to it
  as a child. In \<open>flightScene\<close> the bolt has geometry \<open>0\<close> and material \<open>1\<close> and its glow
  has geometry \<open>2\<close> and material \<open>3\<close>; the bolt meets nothing, is removed by its 100th
  update, and after that update the disposal log holds the bolt's geometry and material
  and neither the geometry nor the material of the glow. In \<open>hitScene\<close> the bolt
  (geometry \<open>10\<close>, material \<open>11\<close>, glow \<open>12\<close> and \<open>13\<close>) is removed by its first update,
  with the same result.
\<close>

theorem retired_projectile_keeps_glow_resources:
  "projectilesRef flightScene =
     [\<lparr>mesh = \<lparr>position = \<lparr>vx = 0, vy = 1.4, vz = 0\<rparr>, geometry = 0, material = Single 1,
                children = [\<lparr>child_geometry = 2, child_material = Single 3\<rparr>]\<rparr>,
       velocity = \<lparr>vx = 0, vy = 0, vz = - 0.8\<rparr>, life = 100\<rparr>] \<and>
   disposed flightScene = [] \<and>
   projectilesRef ((updateProjectiles boltBox ^^ 100) flightScene) = [] \<and>
   disposed ((updateProjectiles boltBox ^^ 100) flightScene) = [Geometry 0, Material 1] \<and>
   Geometry 2 \<notin> set (disposed ((updateProjectiles boltBox ^^ 100) flightScene)) \<and>
   Material 3 \<notin> set (disposed ((updateProjectiles boltBox ^^ 100) flightScene)) \<and>
   children (mesh (projectilesRef hitScene ! 0)) =
     [\<lparr>child_geometry = 12, child_material = Single 13\<rparr>] \<and>
   projectilesRef (updateProjectiles boltBox hitScene) = [] \<and>
   disposed (updateProjectiles boltBox hitScene) = [Geometry 10, Material 11]"
proof -
  have "projectilesRef flightScene =
     [\<lparr>mesh = \<lparr>position = \<lparr>vx = 0, vy = 1.4, vz = 0\<rparr>, geometry = 0, material = Single 1,
                children = [\<lparr>child_geometry = 2, child_material = Single 3\<rparr>]\<rparr>,
       velocity = \<lparr>vx = 0, vy = 0, vz = - 0.8\<rparr>, life = 100\<rparr>] \<and>
   disposed flightScene = []"
    by (simp add: flightScene_def shoot_def openScene_def Let_def multiplyScalar_def)
  moreover have "children (mesh (projectilesRef hitScene ! 0)) =
     [\<lparr>child_geometry = 12, child_material = Single 13\<rparr>]"
    by (simp add: hitScene_parts)
  ultimately show ?thesis
    using flightScene_log hitScene_update by simp
qed

end
